theory Spec2Isabelle
  imports Main "HOL-Library.AList"
begin

section \<open>The mesh demo stack (lib/mesh-demo-stack.ts)\<close>

text \<open>
  The class \<open>MeshDemoStack\<close> builds its whole topology in its constructor: a log group,
  a network, a cluster, the gateway service, one colorteller service per call of the local
  function \<open>create\<close>, and the mesh overlay (virtual nodes, a virtual router, a route and a
  virtual service).

  The model is explicit state passing over a record of the class's fields. Every
  \<open>new X(this, id, props)\<close> of the source appends the pair of the identifier and the
  properties to \<open>children\<close>, in the order of the calls; every \<open>a.addDependsOn(b)\<close>
  appends the pair of the two identifiers to \<open>dependsOn\<close>. The constructs of the
  library are recorded as the source configures them. The library refuses a second
  construct with an identifier already used in the stack (\<open>There is already a Construct
  with name ...\<close>): that error ends the constructor, and it is the error value
  \<open>DuplicateIdentifier\<close> of the model. All the constructs that the methods create
  themselves have the stack as their scope.
  Nested property objects that hold a single entry are flattened to their leaf
  (\<open>spec.serviceDiscovery.dns.hostname\<close> is the field \<open>hostname\<close>).
\<close>

subsection \<open>Strings of the run time\<close>

text \<open>
  A string-typed expression may hold \<open>undefined\<close> at run time: \<open>colors[0]\<close> on an empty
  array. Interpolation in a template literal (and \<open>ToString\<close>) renders it as the nine
  letters \<open>undefined\<close>.
\<close>

datatype jsstring = Undefined | Str string

fun toStr :: "jsstring \<Rightarrow> string" where
  "toStr Undefined = ''undefined''"
| "toStr (Str s) = s"

text \<open>\<open>colors[0]\<close>.\<close>

fun index0 :: "string list \<Rightarrow> jsstring" where
  "index0 [] = Undefined"
| "index0 (c # cs) = Str c"

text \<open>\<open>color.slice(1)\<close>: the string without its first character.\<close>

definition slice1 :: "string \<Rightarrow> string" where
  "slice1 s = drop 1 s"

text \<open>\<open>name.startsWith(p)\<close>.\<close>

definition startsWith :: "string \<Rightarrow> string \<Rightarrow> bool" where
  "startsWith s p = (take (length p) s = p)"

text \<open>The decimal rendering of a number in a template literal.\<close>

definition digit :: "nat \<Rightarrow> char" where
  "digit d = ''0123456789'' ! d"

fun numToString :: "nat \<Rightarrow> string" where
  "numToString n = (if n < 10 then [digit n] else numToString (n div 10) @ [digit (n mod 10)])"

subsection \<open>Constants of the class\<close>

definition APP_PORT :: nat where
  "APP_PORT = 8080"

text \<open>\<open>Duration.seconds(10)\<close>; durations are in seconds.\<close>

definition DEF_TTL :: nat where
  "DEF_TTL = 10"

definition IMAGE_TAG :: string where
  "IMAGE_TAG = ''latest''"

subsection \<open>Constructs\<close>

text \<open>
  A field of the class that holds a construct is a handle: the identifier of the construct,
  or \<open>None\<close> while the field is unassigned.
\<close>

type_synonym handle = "string option"

datatype RetentionDays = ONE_DAY
datatype RemovalPolicy = DESTROY
datatype SubnetType = PUBLIC | PRIVATE
datatype Rule = allowFromAnyIpv4 nat | allowInternally nat

record LogGroupProps =
  logGroupName :: string
  retention :: RetentionDays
  removalPolicy :: RemovalPolicy

record SubnetConfiguration =
  cidrMask :: nat
  subnet_name :: string
  subnetType :: SubnetType

record VpcProps =
  cidr :: string
  maxAzs :: nat
  subnetConfiguration :: "SubnetConfiguration list"

record SecurityGroupProps =
  sg_vpc :: handle
  allowAllOutbound :: bool
  connections :: "Rule list"

record ClusterProps =
  cluster_vpc :: handle
  defaultCloudMapNamespace :: string

record RoleProps =
  assumedBy :: string
  managedPolicies :: "string list"

record AwsLogs =
  aws_logGroup :: handle
  streamPrefix :: string

record ContainerDefinition =
  container_id :: string
  image :: string
  environment :: "(string \<times> jsstring) list"
  logging :: AwsLogs
  portMappings :: "nat list"

record FargateTaskDefinitionProps =
  td_taskRole :: handle
  td_executionRole :: handle
  cpu :: nat
  memoryLimitMiB :: nat
  containers :: "ContainerDefinition list"

record CloudMapOptions =
  cm_name :: string
  dnsTtl :: "nat option"

record FargateServiceProps =
  svc_cluster :: handle
  serviceName :: string
  taskDefinition :: string
  desiredCount :: nat
  svc_securityGroup :: handle
  cloudMapOptions :: CloudMapOptions

record HealthCheck =
  path :: string
  hc_port :: string
  interval :: nat
  timeout :: nat
  healthyThresholdCount :: nat
  unhealthyThresholdCount :: nat
  healthyHttpCodes :: string

record ListenerTargets =
  tg_id :: string
  tg_port :: nat
  targets :: "string list"
  tg_healthCheck :: HealthCheck

record Listener =
  listener_id :: string
  listener_port :: nat
  listener_targets :: "ListenerTargets list"

record ApplicationLoadBalancerProps =
  alb_vpc :: handle
  internetFacing :: bool
  alb_securityGroup :: handle
  listeners :: "Listener list"

text \<open>The value of the output is an attribute of another construct.\<close>

record CfnOutputProps =
  description :: string
  output_value :: "string \<times> string"

record CfnMeshProps =
  meshName :: string

record PortMapping =
  protocol :: string
  pm_port :: nat

record CfnVirtualNodeProps =
  vn_meshName :: string
  virtualNodeName :: string
  vn_listeners :: "PortMapping list"
  hostname :: string

record CfnVirtualRouterProps =
  virtualRouterName :: string
  vr_meshName :: string
  vr_listeners :: "PortMapping list"

record WeightedTarget =
  virtualNode :: string
  weight :: nat

record CfnRouteProps =
  routeName :: string
  route_meshName :: string
  route_virtualRouterName :: string
  match_prefix :: string
  weightedTargets :: "WeightedTarget list"

datatype Provider = virtualRouter string

record CfnVirtualServiceProps =
  virtualServiceName :: string
  vs_meshName :: string
  provider :: Provider

datatype construct =
    LogGroup LogGroupProps
  | Vpc VpcProps
  | SecurityGroup SecurityGroupProps
  | Cluster ClusterProps
  | Role RoleProps
  | FargateTaskDefinition FargateTaskDefinitionProps
  | FargateService FargateServiceProps
  | ApplicationLoadBalancer ApplicationLoadBalancerProps
  | CfnOutput CfnOutputProps
  | CfnMesh CfnMeshProps
  | CfnVirtualNode CfnVirtualNodeProps
  | CfnVirtualRouter CfnVirtualRouterProps
  | CfnRoute CfnRouteProps
  | CfnVirtualService CfnVirtualServiceProps

subsection \<open>The state of the stack\<close>

text \<open>
  \<open>taskFamily\<close> is the \<open>Map\<close> of the class, in insertion order; the family of a task
  definition is generated by the library from the definition's identifier, and the model
  stores that identifier. The mesh and the router are kept with their identifier, which
  \<open>addDependsOn\<close> records.
\<close>

record MeshDemoStack =
  taskRole :: handle
  taskExecutionRole :: handle
  vpc :: handle
  cluster :: handle
  namespace :: string
  internalSecurityGroup :: handle
  externalSecurityGroup :: handle
  logGroup :: handle
  colors :: "string list"
  mesh :: "(string \<times> CfnMeshProps) option"
  taskFamily :: "(jsstring \<times> string) list"
  children :: "(string \<times> construct) list"
  dependsOn :: "(string \<times> string) list"

text \<open>
  Reading a property of a field that is still unassigned throws a \<open>TypeError\<close>; creating
  a construct under an identifier that the stack already has throws the library's error.
\<close>

datatype error = TypeError | DuplicateIdentifier string

text \<open>Sequencing: an error ends what follows.\<close>

definition andThen :: "error + 'a \<Rightarrow> ('a \<Rightarrow> error + 'b) \<Rightarrow> error + 'b" where
  "andThen r f = (case r of Inl e \<Rightarrow> Inl e | Inr x \<Rightarrow> f x)"

definition healthCheck :: HealthCheck where
  "healthCheck =
     \<lparr>path = ''/ping'', hc_port = numToString APP_PORT, interval = 30, timeout = 5,
      healthyThresholdCount = 2, unhealthyThresholdCount = 2,
      healthyHttpCodes = ''200-499''\<rparr>"

text \<open>\<open>new X(this, id, props)\<close>.\<close>

definition addChild :: "string \<Rightarrow> construct \<Rightarrow> MeshDemoStack \<Rightarrow> error + MeshDemoStack" where
  "addChild i c st =
     (if i \<in> set (map fst (children st)) then Inl (DuplicateIdentifier i)
      else Inr (st\<lparr>children := children st @ [(i, c)]\<rparr>))"

text \<open>\<open>a.addDependsOn(b)\<close>: the construct \<open>a\<close> is created after \<open>b\<close>.\<close>

definition addDependsOn :: "string \<Rightarrow> string \<Rightarrow> MeshDemoStack \<Rightarrow> MeshDemoStack" where
  "addDependsOn a b st = st\<lparr>dependsOn := dependsOn st @ [(a, b)]\<rparr>"

text \<open>\<open>xs.forEach(f)\<close> for a callback that may throw: the first error ends the loop.\<close>

fun forEach :: "('a \<Rightarrow> 's \<Rightarrow> error + 's) \<Rightarrow> 'a list \<Rightarrow> 's \<Rightarrow> error + 's" where
  "forEach f [] s = Inr s"
| "forEach f (x # xs) s = (case f x s of Inl e \<Rightarrow> Inl e | Inr s' \<Rightarrow> forEach f xs s')"

subsection \<open>Log group, network, cluster\<close>

definition createLogGroup :: "MeshDemoStack \<Rightarrow> error + MeshDemoStack" where
  "createLogGroup st =
     andThen
       (addChild ''LogGroup''
          (LogGroup \<lparr>logGroupName = ''demo'', retention = ONE_DAY, removalPolicy = DESTROY\<rparr>)
          st)
       (\<lambda>st1. Inr (st1\<lparr>logGroup := Some ''LogGroup''\<rparr>))"

definition createVpc :: "MeshDemoStack \<Rightarrow> error + MeshDemoStack" where
  "createVpc st =
     andThen
       (addChild ''demoVPC''
          (Vpc \<lparr>cidr = ''10.0.0.0/16'', maxAzs = 2,
                subnetConfiguration =
                  [\<lparr>cidrMask = 24, subnet_name = ''ingress'', subnetType = PUBLIC\<rparr>,
                   \<lparr>cidrMask = 24, subnet_name = ''application'', subnetType = PRIVATE\<rparr>]\<rparr>)
          st)
       (\<lambda>st0. let st1 = st0\<lparr>vpc := Some ''demoVPC''\<rparr> in
     andThen
       (addChild ''DemoExternalSG''
          (SecurityGroup \<lparr>sg_vpc = vpc st1, allowAllOutbound = True,
                          connections = [allowFromAnyIpv4 80]\<rparr>) st1)
       (\<lambda>st1'. let st2 = st1'\<lparr>externalSecurityGroup := Some ''DemoExternalSG''\<rparr> in
     andThen
       (addChild ''DemoInternalSG''
          (SecurityGroup \<lparr>sg_vpc = vpc st2, allowAllOutbound = True,
                          connections = map allowInternally [APP_PORT, 9901, 15000]\<rparr>) st2)
       (\<lambda>st3. Inr (st3\<lparr>internalSecurityGroup := Some ''DemoInternalSG''\<rparr>))))"

definition createCluster :: "MeshDemoStack \<Rightarrow> error + MeshDemoStack" where
  "createCluster st =
     andThen
       (addChild ''DemoCluster''
          (Cluster \<lparr>cluster_vpc = vpc st, defaultCloudMapNamespace = namespace st\<rparr>) st)
       (\<lambda>st0. let st1 = st0\<lparr>cluster := Some ''DemoCluster''\<rparr> in
     andThen
       (addChild ''DemoTaskRole''
          (Role \<lparr>assumedBy = ''ecs-tasks.amazonaws.com'',
                 managedPolicies =
                   [''CloudWatchLogsFullAccess'', ''AWSXRayDaemonWriteAccess'']\<rparr>) st1)
       (\<lambda>st1'. let st2 = st1'\<lparr>taskRole := Some ''DemoTaskRole''\<rparr> in
     andThen
       (addChild ''demoTaskExecutionRole''
          (Role \<lparr>assumedBy = ''ecs-tasks.amazonaws.com'',
                 managedPolicies = [''AmazonEC2ContainerRegistryReadOnly'']\<rparr>) st2)
       (\<lambda>st3. Inr (st3\<lparr>taskExecutionRole := Some ''demoTaskExecutionRole''\<rparr>))))"

subsection \<open>The gateway\<close>

text \<open>
  The properties that a method passes to a constructor are named after the local variable
  that holds the construct, so that the methods below read as the source does. A task
  definition is recorded with the container that \<open>addContainer\<close> and
  \<open>addPortMappings\<close> give it right after its creation, a load balancer with its listener
  and targets.
\<close>

definition gatewayContainer :: "MeshDemoStack \<Rightarrow> ContainerDefinition" where
  "gatewayContainer st =
     \<lparr>container_id = ''app'',
      image = ''subfuzion/colorgateway:'' @ IMAGE_TAG,
      environment =
        [(''SERVER_PORT'', Str (numToString APP_PORT)),
         (''COLOR_TELLER_ENDPOINT'',
          Str (''colorteller.'' @ namespace st @ '':'' @ numToString APP_PORT))],
      logging = \<lparr>aws_logGroup = logGroup st, streamPrefix = ''gateway''\<rparr>,
      portMappings = [APP_PORT]\<rparr>"

definition gatewayTaskDef :: "MeshDemoStack \<Rightarrow> FargateTaskDefinitionProps" where
  "gatewayTaskDef st =
     \<lparr>td_taskRole = taskRole st, td_executionRole = taskExecutionRole st,
      cpu = 512, memoryLimitMiB = 1024, containers = [gatewayContainer st]\<rparr>"

definition gatewayService :: "MeshDemoStack \<Rightarrow> FargateServiceProps" where
  "gatewayService st =
     \<lparr>svc_cluster = cluster st, serviceName = ''gateway'',
      taskDefinition = ''GatewayTaskDef-v2'', desiredCount = 1,
      svc_securityGroup = internalSecurityGroup st,
      cloudMapOptions = \<lparr>cm_name = ''gateway'', dnsTtl = None\<rparr>\<rparr>"

definition alb :: "MeshDemoStack \<Rightarrow> ApplicationLoadBalancerProps" where
  "alb st =
     \<lparr>alb_vpc = vpc st, internetFacing = True,
      alb_securityGroup = externalSecurityGroup st,
      listeners =
        [\<lparr>listener_id = ''web'', listener_port = 80,
          listener_targets =
            [\<lparr>tg_id = ''demotarget'', tg_port = 80, targets = [''GatewayService-v2''],
              tg_healthCheck = healthCheck\<rparr>]\<rparr>]\<rparr>"

definition createGateway :: "MeshDemoStack \<Rightarrow> error + MeshDemoStack" where
  "createGateway st =
     andThen
       (addChild ''GatewayTaskDef-v2'' (FargateTaskDefinition (gatewayTaskDef st)) st)
       (\<lambda>st1. let st2 = st1\<lparr>taskFamily :=
                     AList.update (Str ''gateway'') ''GatewayTaskDef-v2'' (taskFamily st1)\<rparr> in
     andThen
       (addChild ''GatewayService-v2'' (FargateService (gatewayService st2)) st2)
       (\<lambda>st3.
     andThen
       (addChild ''DemoALB'' (ApplicationLoadBalancer (alb st3)) st3)
       (\<lambda>st4.
        addChild ''alburl''
          (CfnOutput \<lparr>description = ''Color App public URL'',
                      output_value = (''DemoALB'', ''loadBalancerDnsName'')\<rparr>) st4)))"

subsection \<open>The colortellers\<close>

text \<open>The local function \<open>create\<close> of \<open>createColorTeller\<close> and what it builds.\<close>

definition container :: "jsstring \<Rightarrow> MeshDemoStack \<Rightarrow> ContainerDefinition" where
  "container color st =
     \<lparr>container_id = ''app'',
      image = ''subfuzion/colorteller:'' @ IMAGE_TAG,
      environment = [(''SERVER_PORT'', Str (numToString APP_PORT)), (''COLOR'', color)],
      logging = \<lparr>aws_logGroup = logGroup st,
                 streamPrefix = ''colorteller-'' @ toStr color\<rparr>,
      portMappings = [APP_PORT]\<rparr>"

definition taskDef :: "jsstring \<Rightarrow> MeshDemoStack \<Rightarrow> FargateTaskDefinitionProps" where
  "taskDef color st =
     \<lparr>td_taskRole = taskRole st, td_executionRole = taskExecutionRole st,
      cpu = 512, memoryLimitMiB = 1024, containers = [container color st]\<rparr>"

definition service :: "jsstring \<Rightarrow> string \<Rightarrow> MeshDemoStack \<Rightarrow> FargateServiceProps" where
  "service color name st =
     \<lparr>svc_cluster = cluster st, serviceName = name,
      taskDefinition = toStr color @ ''_taskdef-v2'', desiredCount = 1,
      svc_securityGroup = internalSecurityGroup st,
      cloudMapOptions = \<lparr>cm_name = name, dnsTtl = Some DEF_TTL\<rparr>\<rparr>"

definition create ::
  "jsstring \<Rightarrow> string \<Rightarrow> MeshDemoStack \<Rightarrow> error + MeshDemoStack" where
  "create color name st =
     andThen
       (addChild (toStr color @ ''_taskdef-v2'') (FargateTaskDefinition (taskDef color st)) st)
       (\<lambda>st1. let st2 = st1\<lparr>taskFamily :=
                     AList.update color (toStr color @ ''_taskdef-v2'') (taskFamily st1)\<rparr> in
        addChild (''DemoColorTellerService-'' @ toStr color @ ''-v2'')
          (FargateService (service color name st2)) st2)"

text \<open>
  \<open>create(colors[0], "colorteller")\<close>, then for each colour of the list
  \<open>create(color.slice(1), `colorteller-${color}`)\<close>.
\<close>

definition createColorTeller ::
  "string list \<Rightarrow> MeshDemoStack \<Rightarrow> error + MeshDemoStack" where
  "createColorTeller colors' st =
     andThen (create (index0 colors') ''colorteller'' st)
       (forEach (\<lambda>color. create (Str (slice1 color)) (''colorteller-'' @ color)) colors')"

subsection \<open>The mesh\<close>

text \<open>
  Each method of the mesh reads \<open>this.mesh.meshName\<close> for the properties it passes, before
  the construct is created; the read throws while the field is unassigned.
\<close>

definition virtualNodeProps :: "string \<Rightarrow> string \<Rightarrow> MeshDemoStack \<Rightarrow> CfnVirtualNodeProps" where
  "virtualNodeProps mn name st =
     \<lparr>vn_meshName = mn, virtualNodeName = name,
      vn_listeners = [\<lparr>protocol = ''http'', pm_port = APP_PORT\<rparr>],
      hostname = (if startsWith name (toStr (index0 (colors st)))
                  then ''colorteller'' else name)\<rparr>"

text \<open>The callback of the loop in \<open>createVirtualNodes\<close>.\<close>

definition createVirtualNode :: "string \<Rightarrow> MeshDemoStack \<Rightarrow> error + MeshDemoStack" where
  "createVirtualNode color st =
     (let name = color @ ''-vn'' in
      case mesh st of
        None \<Rightarrow> Inl TypeError
      | Some m \<Rightarrow>
          andThen
            (addChild (''Demo-'' @ name)
               (CfnVirtualNode (virtualNodeProps (meshName (snd m)) name st)) st)
            (\<lambda>st1. Inr (addDependsOn (''Demo-'' @ name) (fst m) st1)))"

definition createVirtualNodes :: "MeshDemoStack \<Rightarrow> error + MeshDemoStack" where
  "createVirtualNodes st = forEach createVirtualNode (colors st) st"

definition routerProps :: "string \<Rightarrow> CfnVirtualRouterProps" where
  "routerProps mn =
     \<lparr>virtualRouterName = ''colorteller-vr'', vr_meshName = mn,
      vr_listeners = [\<lparr>protocol = ''http'', pm_port = APP_PORT\<rparr>]\<rparr>"

definition createVirtualRouter ::
  "MeshDemoStack \<Rightarrow> error + ((string \<times> CfnVirtualRouterProps) \<times> MeshDemoStack)" where
  "createVirtualRouter st =
     (case mesh st of
        None \<Rightarrow> Inl TypeError
      | Some m \<Rightarrow>
          (let router = (''DemoColorTellerVirtualRouter'', routerProps (meshName (snd m)))
           in andThen (addChild (fst router) (CfnVirtualRouter (snd router)) st)
                (\<lambda>st1. Inr (router, addDependsOn (fst router) (fst m) st1))))"

definition routeProps :: "string \<Rightarrow> CfnVirtualRouterProps \<Rightarrow> CfnRouteProps" where
  "routeProps mn router =
     \<lparr>routeName = ''colorteller-route'', route_meshName = mn,
      route_virtualRouterName = virtualRouterName router, match_prefix = ''/'',
      weightedTargets = [\<lparr>virtualNode = ''blue-vn'', weight = 1\<rparr>]\<rparr>"

definition createRoute ::
  "(string \<times> CfnVirtualRouterProps) \<Rightarrow> MeshDemoStack \<Rightarrow> error + MeshDemoStack" where
  "createRoute router st =
     (case mesh st of
        None \<Rightarrow> Inl TypeError
      | Some m \<Rightarrow>
          andThen
            (addChild ''DemoColorTellerRoute''
               (CfnRoute (routeProps (meshName (snd m)) (snd router))) st)
            (\<lambda>st1. Inr (addDependsOn ''DemoColorTellerRoute'' (fst router) st1)))"

definition svc :: "string \<Rightarrow> MeshDemoStack \<Rightarrow> CfnVirtualServiceProps" where
  "svc mn st =
     \<lparr>virtualServiceName = ''colorteller.'' @ namespace st, vs_meshName = mn,
      provider = virtualRouter ''colorteller-vr''\<rparr>"

definition createVirtualService ::
  "(string \<times> CfnVirtualRouterProps) \<Rightarrow> MeshDemoStack \<Rightarrow> error + MeshDemoStack" where
  "createVirtualService router st =
     (case mesh st of
        None \<Rightarrow> Inl TypeError
      | Some m \<Rightarrow>
          andThen
            (addChild ''ColorTellerVirtualService''
               (CfnVirtualService (svc (meshName (snd m)) st)) st)
            (\<lambda>st1. Inr (addDependsOn ''ColorTellerVirtualService'' (fst router) st1)))"

definition createMesh :: "MeshDemoStack \<Rightarrow> error + MeshDemoStack" where
  "createMesh st =
     (let m = (''DemoMesh'', \<lparr>meshName = ''demomesh''\<rparr>) in
      andThen (addChild (fst m) (CfnMesh (snd m)) st)
        (\<lambda>st0. let st1 = st0\<lparr>mesh := Some m\<rparr> in
      andThen (createVirtualNodes st1)
        (\<lambda>st2.
      andThen (createVirtualRouter st2)
        (\<lambda>(router, st3).
      andThen (createRoute router st3)
        (\<lambda>st4. createVirtualService router st4)))))"

subsection \<open>The constructor\<close>

text \<open>
  The state before the body of the constructor runs: the field initialisers have run, with
  the variant list and the namespace as given; no construct exists yet.
\<close>

definition fieldInit :: "string list \<Rightarrow> string \<Rightarrow> MeshDemoStack" where
  "fieldInit cs ns =
     \<lparr>taskRole = None, taskExecutionRole = None, vpc = None, cluster = None, namespace = ns,
      internalSecurityGroup = None, externalSecurityGroup = None, logGroup = None,
      colors = cs, mesh = None, taskFamily = [], children = [], dependsOn = []\<rparr>"

definition "constructor" :: "string list \<Rightarrow> string \<Rightarrow> error + MeshDemoStack" where
  "constructor cs ns =
     andThen (createLogGroup (fieldInit cs ns))
       (\<lambda>st1.
     andThen (createVpc st1)
       (\<lambda>st2.
     andThen (createCluster st2)
       (\<lambda>st3.
     andThen (createGateway st3)
       (\<lambda>st4.
     andThen (createColorTeller (colors st4) st4)
       createMesh))))"

subsection \<open>Reading the constructed stack\<close>

text \<open>The constructs of one class among the children, in the order of their creation.\<close>

definition taskDefinitions :: "MeshDemoStack \<Rightarrow> (string \<times> FargateTaskDefinitionProps) list" where
  "taskDefinitions st =
     concat (map (\<lambda>(i, c). case c of FargateTaskDefinition d \<Rightarrow> [(i, d)] | _ \<Rightarrow> [])
               (children st))"

definition services :: "MeshDemoStack \<Rightarrow> FargateServiceProps list" where
  "services st =
     concat (map (\<lambda>(i, c). case c of FargateService s \<Rightarrow> [s] | _ \<Rightarrow> []) (children st))"

definition virtualNodes :: "MeshDemoStack \<Rightarrow> CfnVirtualNodeProps list" where
  "virtualNodes st =
     concat (map (\<lambda>(i, c). case c of CfnVirtualNode n \<Rightarrow> [n] | _ \<Rightarrow> []) (children st))"

definition routes :: "MeshDemoStack \<Rightarrow> CfnRouteProps list" where
  "routes st =
     concat (map (\<lambda>(i, c). case c of CfnRoute r \<Rightarrow> [r] | _ \<Rightarrow> []) (children st))"

definition virtualServices :: "MeshDemoStack \<Rightarrow> CfnVirtualServiceProps list" where
  "virtualServices st =
     concat (map (\<lambda>(i, c). case c of CfnVirtualService v \<Rightarrow> [v] | _ \<Rightarrow> [])
               (children st))"

text \<open>The names of the virtual nodes, and the node names the routes forward to.\<close>

definition nodeNames :: "MeshDemoStack \<Rightarrow> string list" where
  "nodeNames st = map virtualNodeName (virtualNodes st)"

definition routeTargets :: "MeshDemoStack \<Rightarrow> string list" where
  "routeTargets st = map virtualNode (concat (map weightedTargets (routes st)))"

text \<open>
  The values of an environment variable in the containers of the task definition that a
  service runs.
\<close>

definition envOf :: "string \<Rightarrow> MeshDemoStack \<Rightarrow> FargateServiceProps \<Rightarrow> jsstring list" where
  "envOf key st s =
     concat (map (\<lambda>(i, d). if i = taskDefinition s
                            then concat (map (\<lambda>ct. map snd (filter (\<lambda>kv. fst kv = key)
                                                                (environment ct)))
                                           (containers d))
                            else [])
               (taskDefinitions st))"

definition serviceEnv :: "string \<Rightarrow> string \<Rightarrow> MeshDemoStack \<Rightarrow> jsstring list" where
  "serviceEnv name key st =
     concat (map (envOf key st) (filter (\<lambda>s. serviceName s = name) (services st)))"

section \<open>What the constructor builds\<close>

text \<open>
  The lemmas of this section follow the constructor method by method. A method that returns
  has added its constructs to the children of the stack in the order of its calls; the
  first four methods always return, since their identifiers are fixed and differ.
  \<open>constructor_Inr\<close> lists what a stack returned by the constructor holds.
\<close>

lemma numToString_APP_PORT: "numToString APP_PORT = ''8080''"
  by (simp add: APP_PORT_def digit_def)

declare numToString.simps [simp del]

lemma concat_map_concat_map:
  "concat (map F (concat (map G xs))) = concat (map (\<lambda>x. concat (map F (G x))) xs)"
  by (induction xs) simp_all

lemma andThen_simps [simp]:
  "andThen (Inl e) f = Inl e"
  "andThen (Inr x) f = f x"
  by (simp_all add: andThen_def)

lemma andThen_eq_Inr: "(andThen r f = Inr y) = (\<exists>x. r = Inr x \<and> f x = Inr y)"
  by (cases r) simp_all

lemma addChild_eq_Inr:
  "(addChild i c st = Inr st') =
     (i \<notin> set (map fst (children st)) \<and> st' = st\<lparr>children := children st @ [(i, c)]\<rparr>)"
  by (auto simp add: addChild_def)

lemma create_Inr:
  assumes "create c n st = Inr st'"
  shows "taskRole st' = taskRole st" "taskExecutionRole st' = taskExecutionRole st"
    "cluster st' = cluster st" "namespace st' = namespace st"
    "internalSecurityGroup st' = internalSecurityGroup st" "logGroup st' = logGroup st"
    "colors st' = colors st" "mesh st' = mesh st" "dependsOn st' = dependsOn st"
    "children st' = children st @
       [(toStr c @ ''_taskdef-v2'', FargateTaskDefinition (taskDef c st)),
        (''DemoColorTellerService-'' @ toStr c @ ''-v2'', FargateService (service c n st))]"
  using assms
  by (auto simp add: create_def andThen_eq_Inr addChild_eq_Inr Let_def service_def)

lemma props_cong:
  "taskRole a = taskRole b \<Longrightarrow> taskExecutionRole a = taskExecutionRole b \<Longrightarrow>
   logGroup a = logGroup b \<Longrightarrow> taskDef c a = taskDef c b"
  "cluster a = cluster b \<Longrightarrow> internalSecurityGroup a = internalSecurityGroup b \<Longrightarrow>
   service c n a = service c n b"
  "taskRole a = taskRole b \<Longrightarrow> taskExecutionRole a = taskExecutionRole b \<Longrightarrow>
   logGroup a = logGroup b \<Longrightarrow> namespace a = namespace b \<Longrightarrow>
   gatewayTaskDef a = gatewayTaskDef b"
  "cluster a = cluster b \<Longrightarrow> internalSecurityGroup a = internalSecurityGroup b \<Longrightarrow>
   gatewayService a = gatewayService b"
  "colors a = colors b \<Longrightarrow> virtualNodeProps mn name a = virtualNodeProps mn name b"
  "namespace a = namespace b \<Longrightarrow> svc mn a = svc mn b"
  by (simp_all add: taskDef_def container_def service_def gatewayTaskDef_def
      gatewayContainer_def gatewayService_def virtualNodeProps_def svc_def)

lemma forEach_create_Inr:
  "forEach (\<lambda>color. create (f color) (g color)) cs st = Inr st' \<Longrightarrow>
   taskRole st' = taskRole st \<and> taskExecutionRole st' = taskExecutionRole st \<and>
   cluster st' = cluster st \<and> namespace st' = namespace st \<and>
   internalSecurityGroup st' = internalSecurityGroup st \<and> logGroup st' = logGroup st \<and>
   colors st' = colors st \<and> mesh st' = mesh st \<and> dependsOn st' = dependsOn st \<and>
   children st' = children st @
     concat (map (\<lambda>color.
       [(toStr (f color) @ ''_taskdef-v2'', FargateTaskDefinition (taskDef (f color) st)),
        (''DemoColorTellerService-'' @ toStr (f color) @ ''-v2'',
         FargateService (service (f color) (g color) st))]) cs)"
proof (induction cs arbitrary: st)
  case Nil
  then show ?case by simp
next
  case (Cons x xs)
  from Cons.prems obtain st1 where 1: "create (f x) (g x) st = Inr st1"
    and 2: "forEach (\<lambda>color. create (f color) (g color)) xs st1 = Inr st'"
    by (auto split: sum.splits)
  note c = create_Inr [OF 1]
  have p: "\<And>k. taskDef k st1 = taskDef k st" "\<And>k n. service k n st1 = service k n st"
    by (simp_all add: props_cong [of st1 st] c)
  from Cons.IH [OF 2] show ?case by (simp add: c p)
qed

lemma createColorTeller_Inr:
  assumes "createColorTeller cs st = Inr st'"
  shows "taskRole st' = taskRole st" "taskExecutionRole st' = taskExecutionRole st"
    "cluster st' = cluster st" "namespace st' = namespace st"
    "internalSecurityGroup st' = internalSecurityGroup st" "logGroup st' = logGroup st"
    "colors st' = colors st" "mesh st' = mesh st" "dependsOn st' = dependsOn st"
    "children st' = children st @
     [(toStr (index0 cs) @ ''_taskdef-v2'', FargateTaskDefinition (taskDef (index0 cs) st)),
      (''DemoColorTellerService-'' @ toStr (index0 cs) @ ''-v2'',
       FargateService (service (index0 cs) ''colorteller'' st))] @
     concat (map (\<lambda>color.
       [(slice1 color @ ''_taskdef-v2'', FargateTaskDefinition (taskDef (Str (slice1 color)) st)),
        (''DemoColorTellerService-'' @ slice1 color @ ''-v2'',
         FargateService (service (Str (slice1 color)) (''colorteller-'' @ color) st))]) cs)"
proof -
  from assms obtain st1 where 1: "create (index0 cs) ''colorteller'' st = Inr st1"
    and 2: "forEach (\<lambda>color. create (Str (slice1 color)) (''colorteller-'' @ color)) cs st1
              = Inr st'"
    by (auto simp add: createColorTeller_def andThen_eq_Inr)
  note c = create_Inr [OF 1]
  note f = forEach_create_Inr [OF 2]
  have p: "\<And>k. taskDef k st1 = taskDef k st" "\<And>k n. service k n st1 = service k n st"
    by (simp_all add: props_cong [of st1 st] c)
  show "taskRole st' = taskRole st" "taskExecutionRole st' = taskExecutionRole st"
    "cluster st' = cluster st" "namespace st' = namespace st"
    "internalSecurityGroup st' = internalSecurityGroup st" "logGroup st' = logGroup st"
    "colors st' = colors st" "mesh st' = mesh st" "dependsOn st' = dependsOn st"
    using f by (simp_all add: c)
  show "children st' = children st @
     [(toStr (index0 cs) @ ''_taskdef-v2'', FargateTaskDefinition (taskDef (index0 cs) st)),
      (''DemoColorTellerService-'' @ toStr (index0 cs) @ ''-v2'',
       FargateService (service (index0 cs) ''colorteller'' st))] @
     concat (map (\<lambda>color.
       [(slice1 color @ ''_taskdef-v2'', FargateTaskDefinition (taskDef (Str (slice1 color)) st)),
        (''DemoColorTellerService-'' @ slice1 color @ ''-v2'',
         FargateService (service (Str (slice1 color)) (''colorteller-'' @ color) st))]) cs)"
    using f by (simp add: c p)
qed

lemma forEach_createVirtualNode_Inr:
  "mesh st = Some m \<Longrightarrow> forEach createVirtualNode cs st = Inr st' \<Longrightarrow>
   st' = st\<lparr>children := children st @
                  map (\<lambda>color. (''Demo-'' @ color @ ''-vn'',
                         CfnVirtualNode (virtualNodeProps (meshName (snd m)) (color @ ''-vn'') st)))
                    cs,
           dependsOn := dependsOn st @ map (\<lambda>color. (''Demo-'' @ color @ ''-vn'', fst m)) cs\<rparr>"
proof (induction cs arbitrary: st)
  case Nil
  then show ?case by simp
next
  case (Cons c cs)
  from Cons.prems obtain st1 where 1: "createVirtualNode c st = Inr st1"
    and 2: "forEach createVirtualNode cs st1 = Inr st'"
    by (auto split: sum.splits)
  from 1 Cons.prems(1) have s1: "st1 = st\<lparr>children := children st @
      [(''Demo-'' @ c @ ''-vn'',
        CfnVirtualNode (virtualNodeProps (meshName (snd m)) (c @ ''-vn'') st))],
      dependsOn := dependsOn st @ [(''Demo-'' @ c @ ''-vn'', fst m)]\<rparr>"
    by (auto simp add: createVirtualNode_def andThen_eq_Inr addChild_eq_Inr addDependsOn_def
        Let_def)
  then have m1: "mesh st1 = Some m" using Cons.prems(1) by simp
  from Cons.IH [OF m1 2] show ?case
    by (simp add: s1 virtualNodeProps_def)
qed

lemma createMesh_Inr:
  assumes "createMesh st = Inr st'"
  shows "taskRole st' = taskRole st" "taskExecutionRole st' = taskExecutionRole st"
    "cluster st' = cluster st" "namespace st' = namespace st"
    "internalSecurityGroup st' = internalSecurityGroup st" "logGroup st' = logGroup st"
    "colors st' = colors st"
    "children st' = children st @
       (''DemoMesh'', CfnMesh \<lparr>meshName = ''demomesh''\<rparr>) #
       map (\<lambda>color. (''Demo-'' @ color @ ''-vn'',
              CfnVirtualNode (virtualNodeProps ''demomesh'' (color @ ''-vn'') st))) (colors st) @
       [(''DemoColorTellerVirtualRouter'', CfnVirtualRouter (routerProps ''demomesh'')),
        (''DemoColorTellerRoute'',
         CfnRoute (routeProps ''demomesh'' (routerProps ''demomesh''))),
        (''ColorTellerVirtualService'', CfnVirtualService (svc ''demomesh'' st))]"
    "dependsOn st' = dependsOn st @
       map (\<lambda>color. (''Demo-'' @ color @ ''-vn'', ''DemoMesh'')) (colors st) @
       [(''DemoColorTellerVirtualRouter'', ''DemoMesh''),
        (''DemoColorTellerRoute'', ''DemoColorTellerVirtualRouter''),
        (''ColorTellerVirtualService'', ''DemoColorTellerVirtualRouter'')]"
proof -
  let ?m = "(''DemoMesh'', \<lparr>meshName = ''demomesh''\<rparr>)"
  let ?st1 = "st\<lparr>children := children st @ [(''DemoMesh'', CfnMesh \<lparr>meshName = ''demomesh''\<rparr>)],
                 mesh := Some ?m\<rparr>"
  from assms obtain st2 r st3 st4 where
    1: "forEach createVirtualNode (colors st) ?st1 = Inr st2"
    and 2: "createVirtualRouter st2 = Inr (r, st3)"
    and 3: "createRoute r st3 = Inr st4"
    and 4: "createVirtualService r st4 = Inr st'"
    by (auto simp add: createMesh_def Let_def andThen_eq_Inr addChild_eq_Inr
        createVirtualNodes_def)
  have m1: "mesh ?st1 = Some ?m" by simp
  note s2 = forEach_createVirtualNode_Inr [OF m1 1]
  have m2: "mesh st2 = Some ?m" by (simp add: s2)
  from 2 m2 have r: "r = (''DemoColorTellerVirtualRouter'', routerProps ''demomesh'')"
    and s3: "st3 = addDependsOn ''DemoColorTellerVirtualRouter'' ''DemoMesh''
        (st2\<lparr>children := children st2 @
           [(''DemoColorTellerVirtualRouter'', CfnVirtualRouter (routerProps ''demomesh''))]\<rparr>)"
    by (auto simp add: createVirtualRouter_def Let_def andThen_eq_Inr addChild_eq_Inr)
  have m3: "mesh st3 = Some ?m" by (simp add: s3 addDependsOn_def m2)
  from 3 m3 have s4: "st4 = addDependsOn ''DemoColorTellerRoute'' ''DemoColorTellerVirtualRouter''
        (st3\<lparr>children := children st3 @
           [(''DemoColorTellerRoute'',
             CfnRoute (routeProps ''demomesh'' (routerProps ''demomesh'')))]\<rparr>)"
    by (auto simp add: createRoute_def andThen_eq_Inr addChild_eq_Inr r)
  have m4: "mesh st4 = Some ?m" by (simp add: s4 addDependsOn_def m3)
  from 4 m4 have s5: "st' = addDependsOn ''ColorTellerVirtualService''
        ''DemoColorTellerVirtualRouter''
        (st4\<lparr>children := children st4 @
           [(''ColorTellerVirtualService'', CfnVirtualService (svc ''demomesh'' st4))]\<rparr>)"
    by (auto simp add: createVirtualService_def andThen_eq_Inr addChild_eq_Inr r)
  show "taskRole st' = taskRole st" "taskExecutionRole st' = taskExecutionRole st"
    "cluster st' = cluster st" "namespace st' = namespace st"
    "internalSecurityGroup st' = internalSecurityGroup st" "logGroup st' = logGroup st"
    "colors st' = colors st"
    by (simp_all add: s5 s4 s3 s2 addDependsOn_def)
  show "children st' = children st @
       (''DemoMesh'', CfnMesh \<lparr>meshName = ''demomesh''\<rparr>) #
       map (\<lambda>color. (''Demo-'' @ color @ ''-vn'',
              CfnVirtualNode (virtualNodeProps ''demomesh'' (color @ ''-vn'') st))) (colors st) @
       [(''DemoColorTellerVirtualRouter'', CfnVirtualRouter (routerProps ''demomesh'')),
        (''DemoColorTellerRoute'',
         CfnRoute (routeProps ''demomesh'' (routerProps ''demomesh''))),
        (''ColorTellerVirtualService'', CfnVirtualService (svc ''demomesh'' st))]"
    by (simp add: s5 s4 s3 s2 addDependsOn_def virtualNodeProps_def svc_def)
  show "dependsOn st' = dependsOn st @
       map (\<lambda>color. (''Demo-'' @ color @ ''-vn'', ''DemoMesh'')) (colors st) @
       [(''DemoColorTellerVirtualRouter'', ''DemoMesh''),
        (''DemoColorTellerRoute'', ''DemoColorTellerVirtualRouter''),
        (''ColorTellerVirtualService'', ''DemoColorTellerVirtualRouter'')]"
    by (simp add: s5 s4 s3 s2 addDependsOn_def)
qed

lemma infrastructure:
  "andThen (createLogGroup (fieldInit cs ns))
            (\<lambda>st1. andThen (createVpc st1)
            (\<lambda>st2. andThen (createCluster st2) createGateway)) = Inr (projr (andThen (createLogGroup (fieldInit cs ns))
            (\<lambda>st1. andThen (createVpc st1)
            (\<lambda>st2. andThen (createCluster st2) createGateway))))"
  "colors (projr (andThen (createLogGroup (fieldInit cs ns))
            (\<lambda>st1. andThen (createVpc st1)
            (\<lambda>st2. andThen (createCluster st2) createGateway)))) = cs"
  "namespace (projr (andThen (createLogGroup (fieldInit cs ns))
            (\<lambda>st1. andThen (createVpc st1)
            (\<lambda>st2. andThen (createCluster st2) createGateway)))) = ns"
  "dependsOn (projr (andThen (createLogGroup (fieldInit cs ns))
            (\<lambda>st1. andThen (createVpc st1)
            (\<lambda>st2. andThen (createCluster st2) createGateway)))) = []"
  "taskRole (projr (andThen (createLogGroup (fieldInit cs ns))
            (\<lambda>st1. andThen (createVpc st1)
            (\<lambda>st2. andThen (createCluster st2) createGateway)))) = Some ''DemoTaskRole''"
  "taskExecutionRole (projr (andThen (createLogGroup (fieldInit cs ns))
            (\<lambda>st1. andThen (createVpc st1)
            (\<lambda>st2. andThen (createCluster st2) createGateway)))) = Some ''demoTaskExecutionRole''"
  "cluster (projr (andThen (createLogGroup (fieldInit cs ns))
            (\<lambda>st1. andThen (createVpc st1)
            (\<lambda>st2. andThen (createCluster st2) createGateway)))) = Some ''DemoCluster''"
  "internalSecurityGroup (projr (andThen (createLogGroup (fieldInit cs ns))
            (\<lambda>st1. andThen (createVpc st1)
            (\<lambda>st2. andThen (createCluster st2) createGateway)))) = Some ''DemoInternalSG''"
  "logGroup (projr (andThen (createLogGroup (fieldInit cs ns))
            (\<lambda>st1. andThen (createVpc st1)
            (\<lambda>st2. andThen (createCluster st2) createGateway)))) = Some ''LogGroup''"
  "map fst (children (projr (andThen (createLogGroup (fieldInit cs ns))
            (\<lambda>st1. andThen (createVpc st1)
            (\<lambda>st2. andThen (createCluster st2) createGateway))))) =
       [''LogGroup'', ''demoVPC'', ''DemoExternalSG'', ''DemoInternalSG'', ''DemoCluster'',
        ''DemoTaskRole'', ''demoTaskExecutionRole'', ''GatewayTaskDef-v2'',
        ''GatewayService-v2'', ''DemoALB'', ''alburl'']"
  "taskDefinitions (projr (andThen (createLogGroup (fieldInit cs ns))
            (\<lambda>st1. andThen (createVpc st1)
            (\<lambda>st2. andThen (createCluster st2) createGateway)))) = [(''GatewayTaskDef-v2'', gatewayTaskDef (projr (andThen (createLogGroup (fieldInit cs ns))
            (\<lambda>st1. andThen (createVpc st1)
            (\<lambda>st2. andThen (createCluster st2) createGateway)))))]"
  "services (projr (andThen (createLogGroup (fieldInit cs ns))
            (\<lambda>st1. andThen (createVpc st1)
            (\<lambda>st2. andThen (createCluster st2) createGateway)))) = [gatewayService (projr (andThen (createLogGroup (fieldInit cs ns))
            (\<lambda>st1. andThen (createVpc st1)
            (\<lambda>st2. andThen (createCluster st2) createGateway))))]"
  "virtualNodes (projr (andThen (createLogGroup (fieldInit cs ns))
            (\<lambda>st1. andThen (createVpc st1)
            (\<lambda>st2. andThen (createCluster st2) createGateway)))) = []"
  "routes (projr (andThen (createLogGroup (fieldInit cs ns))
            (\<lambda>st1. andThen (createVpc st1)
            (\<lambda>st2. andThen (createCluster st2) createGateway)))) = []"
  "virtualServices (projr (andThen (createLogGroup (fieldInit cs ns))
            (\<lambda>st1. andThen (createVpc st1)
            (\<lambda>st2. andThen (createCluster st2) createGateway)))) = []"
  by (simp_all add: createGateway_def createCluster_def createVpc_def createLogGroup_def
      fieldInit_def addChild_def Let_def taskDefinitions_def services_def virtualNodes_def
      routes_def virtualServices_def gatewayTaskDef_def gatewayContainer_def gatewayService_def)

lemma andThen_assoc: "andThen (andThen r f) g = andThen r (\<lambda>x. andThen (f x) g)"
  by (cases r) simp_all

lemma constructor_split:
  "constructor cs ns =
     andThen (andThen (createLogGroup (fieldInit cs ns))
                (\<lambda>st1. andThen (createVpc st1)
                (\<lambda>st2. andThen (createCluster st2) createGateway)))
       (\<lambda>st4. andThen (createColorTeller (colors st4) st4) createMesh)"
  by (simp add: constructor_def andThen_assoc)

lemma constructor_Inr:
  assumes "constructor cs ns = Inr st"
  shows "namespace st = ns" "colors st = cs"
    "taskRole st = Some ''DemoTaskRole''"
    "taskExecutionRole st = Some ''demoTaskExecutionRole''"
    "cluster st = Some ''DemoCluster''"
    "internalSecurityGroup st = Some ''DemoInternalSG''"
    "logGroup st = Some ''LogGroup''"
    "map fst (children st) =
       [''LogGroup'', ''demoVPC'', ''DemoExternalSG'', ''DemoInternalSG'', ''DemoCluster'',
        ''DemoTaskRole'', ''demoTaskExecutionRole'', ''GatewayTaskDef-v2'',
        ''GatewayService-v2'', ''DemoALB'', ''alburl''] @
       [toStr (index0 cs) @ ''_taskdef-v2'',
        ''DemoColorTellerService-'' @ toStr (index0 cs) @ ''-v2''] @
       concat (map (\<lambda>color. [slice1 color @ ''_taskdef-v2'',
                              ''DemoColorTellerService-'' @ slice1 color @ ''-v2'']) cs) @
       ''DemoMesh'' # map (\<lambda>color. ''Demo-'' @ color @ ''-vn'') cs @
       [''DemoColorTellerVirtualRouter'', ''DemoColorTellerRoute'',
        ''ColorTellerVirtualService'']"
    "taskDefinitions st =
       (''GatewayTaskDef-v2'', gatewayTaskDef st) #
       (toStr (index0 cs) @ ''_taskdef-v2'', taskDef (index0 cs) st) #
       map (\<lambda>color. (slice1 color @ ''_taskdef-v2'', taskDef (Str (slice1 color)) st)) cs"
    "services st =
       gatewayService st # service (index0 cs) ''colorteller'' st #
       map (\<lambda>color. service (Str (slice1 color)) (''colorteller-'' @ color) st) cs"
    "virtualNodes st =
       map (\<lambda>color. virtualNodeProps ''demomesh'' (color @ ''-vn'') st) cs"
    "routes st = [routeProps ''demomesh'' (routerProps ''demomesh'')]"
    "virtualServices st = [svc ''demomesh'' st]"
    "dependsOn st =
       map (\<lambda>color. (''Demo-'' @ color @ ''-vn'', ''DemoMesh'')) cs @
       [(''DemoColorTellerVirtualRouter'', ''DemoMesh''),
        (''DemoColorTellerRoute'', ''DemoColorTellerVirtualRouter''),
        (''ColorTellerVirtualService'', ''DemoColorTellerVirtualRouter'')]"
proof -
  define st4 where "st4 = projr (andThen (createLogGroup (fieldInit cs ns))
            (\<lambda>st1. andThen (createVpc st1)
            (\<lambda>st2. andThen (createCluster st2) createGateway)))"
  note i = infrastructure(1) [of cs ns, folded st4_def]
  note inf = infrastructure(2-9) [of cs ns, folded st4_def]
  note io = infrastructure(10-15) [of cs ns, folded st4_def]
  from assms i inf(1) obtain st5 where 5: "createColorTeller cs st4 = Inr st5"
    and 6: "createMesh st5 = Inr st"
    by (auto simp add: constructor_split andThen_eq_Inr)
  note c = createColorTeller_Inr [OF 5]
  note m = createMesh_Inr [OF 6]
  have f: "taskRole st = taskRole st4" "taskExecutionRole st = taskExecutionRole st4"
      "cluster st = cluster st4" "namespace st = namespace st4"
      "internalSecurityGroup st = internalSecurityGroup st4" "logGroup st = logGroup st4"
      "colors st = colors st4" "colors st5 = colors st" "namespace st5 = namespace st"
    by (simp_all add: m c)
  have p: "gatewayTaskDef st4 = gatewayTaskDef st" "gatewayService st4 = gatewayService st"
    "\<And>c. taskDef c st4 = taskDef c st" "\<And>c n. service c n st4 = service c n st"
    "\<And>mn name. virtualNodeProps mn name st5 = virtualNodeProps mn name st"
    "\<And>mn. svc mn st5 = svc mn st"
    by (simp_all add: f props_cong [of st4 st] props_cong [of st5 st])
  have ch: "children st = children st4 @
     [(toStr (index0 cs) @ ''_taskdef-v2'', FargateTaskDefinition (taskDef (index0 cs) st)),
      (''DemoColorTellerService-'' @ toStr (index0 cs) @ ''-v2'',
       FargateService (service (index0 cs) ''colorteller'' st))] @
     concat (map (\<lambda>color.
       [(slice1 color @ ''_taskdef-v2'', FargateTaskDefinition (taskDef (Str (slice1 color)) st)),
        (''DemoColorTellerService-'' @ slice1 color @ ''-v2'',
         FargateService (service (Str (slice1 color)) (''colorteller-'' @ color) st))]) cs) @
       (''DemoMesh'', CfnMesh \<lparr>meshName = ''demomesh''\<rparr>) #
       map (\<lambda>color. (''Demo-'' @ color @ ''-vn'',
              CfnVirtualNode (virtualNodeProps ''demomesh'' (color @ ''-vn'') st))) cs @
       [(''DemoColorTellerVirtualRouter'', CfnVirtualRouter (routerProps ''demomesh'')),
        (''DemoColorTellerRoute'',
         CfnRoute (routeProps ''demomesh'' (routerProps ''demomesh''))),
        (''ColorTellerVirtualService'', CfnVirtualService (svc ''demomesh'' st))]"
    by (simp add: m(8) c(10) p f inf)
  show "namespace st = ns" "colors st = cs"
    "taskRole st = Some ''DemoTaskRole''"
    "taskExecutionRole st = Some ''demoTaskExecutionRole''"
    "cluster st = Some ''DemoCluster''"
    "internalSecurityGroup st = Some ''DemoInternalSG''"
    "logGroup st = Some ''LogGroup''"
    by (simp_all add: f inf)
  show "map fst (children st) =
       [''LogGroup'', ''demoVPC'', ''DemoExternalSG'', ''DemoInternalSG'', ''DemoCluster'',
        ''DemoTaskRole'', ''demoTaskExecutionRole'', ''GatewayTaskDef-v2'',
        ''GatewayService-v2'', ''DemoALB'', ''alburl''] @
       [toStr (index0 cs) @ ''_taskdef-v2'',
        ''DemoColorTellerService-'' @ toStr (index0 cs) @ ''-v2''] @
       concat (map (\<lambda>color. [slice1 color @ ''_taskdef-v2'',
                              ''DemoColorTellerService-'' @ slice1 color @ ''-v2'']) cs) @
       ''DemoMesh'' # map (\<lambda>color. ''Demo-'' @ color @ ''-vn'') cs @
       [''DemoColorTellerVirtualRouter'', ''DemoColorTellerRoute'',
        ''ColorTellerVirtualService'']"
    by (simp add: ch io map_concat comp_def)
  have io': "concat (map (\<lambda>(i, c). case c of FargateTaskDefinition d \<Rightarrow> [(i, d)] | _ \<Rightarrow> [])
               (children st4)) = [(''GatewayTaskDef-v2'', gatewayTaskDef st)]"
    "concat (map (\<lambda>(i, c). case c of FargateService s \<Rightarrow> [s] | _ \<Rightarrow> []) (children st4))
       = [gatewayService st]"
    "concat (map (\<lambda>(i, c). case c of CfnVirtualNode n \<Rightarrow> [n] | _ \<Rightarrow> []) (children st4)) = []"
    "concat (map (\<lambda>(i, c). case c of CfnRoute r \<Rightarrow> [r] | _ \<Rightarrow> []) (children st4)) = []"
    "concat (map (\<lambda>(i, c). case c of CfnVirtualService v \<Rightarrow> [v] | _ \<Rightarrow> []) (children st4)) = []"
    using io p by (simp_all add: taskDefinitions_def services_def virtualNodes_def routes_def
        virtualServices_def)
  show "taskDefinitions st =
       (''GatewayTaskDef-v2'', gatewayTaskDef st) #
       (toStr (index0 cs) @ ''_taskdef-v2'', taskDef (index0 cs) st) #
       map (\<lambda>color. (slice1 color @ ''_taskdef-v2'', taskDef (Str (slice1 color)) st)) cs"
    unfolding taskDefinitions_def ch
    by (simp add: io' concat_map_concat_map comp_def)
  show "services st =
       gatewayService st # service (index0 cs) ''colorteller'' st #
       map (\<lambda>color. service (Str (slice1 color)) (''colorteller-'' @ color) st) cs"
    unfolding services_def ch
    by (simp add: io' concat_map_concat_map comp_def)
  show "virtualNodes st =
       map (\<lambda>color. virtualNodeProps ''demomesh'' (color @ ''-vn'') st) cs"
    unfolding virtualNodes_def ch
    by (simp add: io' concat_map_concat_map comp_def)
  show "routes st = [routeProps ''demomesh'' (routerProps ''demomesh'')]"
    unfolding routes_def ch
    by (simp add: io' concat_map_concat_map comp_def)
  show "virtualServices st = [svc ''demomesh'' st]"
    unfolding virtualServices_def ch
    by (simp add: io' concat_map_concat_map comp_def)
  show "dependsOn st =
       map (\<lambda>color. (''Demo-'' @ color @ ''-vn'', ''DemoMesh'')) cs @
       [(''DemoColorTellerVirtualRouter'', ''DemoMesh''),
        (''DemoColorTellerRoute'', ''DemoColorTellerVirtualRouter''),
        (''ColorTellerVirtualService'', ''DemoColorTellerVirtualRouter'')]"
    by (simp add: m(9) c(9) f inf)
qed

section \<open>When the constructor returns\<close>

text \<open>
  The constructor returns exactly when the identifiers of its constructs are pairwise
  distinct (\<open>constructor_returns_iff\<close>); otherwise the first clash ends it with the
  error of the library. The loop of \<open>createColorTeller\<close> builds its identifiers from
  \<open>color.slice(1)\<close>, so two variants that differ in their first letter only clash, and so
  does the empty variant at the head of the list.
\<close>

lemma create_returns:
  "distinct (map fst (children st) @
     [toStr c @ ''_taskdef-v2'', ''DemoColorTellerService-'' @ toStr c @ ''-v2'']) \<Longrightarrow>
   \<exists>st'. create c n st = Inr st'"
  by (simp add: create_def addChild_def Let_def)

lemma forEach_create_returns:
  "distinct (map fst (children st) @
     concat (map (\<lambda>color. [toStr (f color) @ ''_taskdef-v2'',
                            ''DemoColorTellerService-'' @ toStr (f color) @ ''-v2'']) cs)) \<Longrightarrow>
   \<exists>st'. forEach (\<lambda>color. create (f color) (g color)) cs st = Inr st'"
proof (induction cs arbitrary: st)
  case Nil
  then show ?case by simp
next
  case (Cons x xs)
  from Cons.prems have "distinct (map fst (children st) @
     [toStr (f x) @ ''_taskdef-v2'', ''DemoColorTellerService-'' @ toStr (f x) @ ''-v2''])"
    by auto
  then obtain st1 where 1: "create (f x) (g x) st = Inr st1"
    using create_returns by blast
  have "map fst (children st1) = map fst (children st) @
     [toStr (f x) @ ''_taskdef-v2'', ''DemoColorTellerService-'' @ toStr (f x) @ ''-v2'']"
    by (simp add: create_Inr(10) [OF 1])
  with Cons.prems have "distinct (map fst (children st1) @
     concat (map (\<lambda>color. [toStr (f color) @ ''_taskdef-v2'',
                            ''DemoColorTellerService-'' @ toStr (f color) @ ''-v2'']) xs))"
    by simp
  from Cons.IH [OF this] 1 show ?case by simp
qed

lemma createColorTeller_returns:
  "distinct (map fst (children st) @
     [toStr (index0 cs) @ ''_taskdef-v2'',
      ''DemoColorTellerService-'' @ toStr (index0 cs) @ ''-v2''] @
     concat (map (\<lambda>color. [slice1 color @ ''_taskdef-v2'',
                            ''DemoColorTellerService-'' @ slice1 color @ ''-v2'']) cs)) \<Longrightarrow>
   \<exists>st'. createColorTeller cs st = Inr st'"
proof -
  assume d: "distinct (map fst (children st) @
     [toStr (index0 cs) @ ''_taskdef-v2'',
      ''DemoColorTellerService-'' @ toStr (index0 cs) @ ''-v2''] @
     concat (map (\<lambda>color. [slice1 color @ ''_taskdef-v2'',
                            ''DemoColorTellerService-'' @ slice1 color @ ''-v2'']) cs))"
  then have "distinct (map fst (children st) @
     [toStr (index0 cs) @ ''_taskdef-v2'',
      ''DemoColorTellerService-'' @ toStr (index0 cs) @ ''-v2''])"
    by auto
  then obtain st1 where 1: "create (index0 cs) ''colorteller'' st = Inr st1"
    using create_returns by blast
  have "map fst (children st1) = map fst (children st) @
     [toStr (index0 cs) @ ''_taskdef-v2'',
      ''DemoColorTellerService-'' @ toStr (index0 cs) @ ''-v2'']"
    by (simp add: create_Inr(10) [OF 1])
  with d have "distinct (map fst (children st1) @
     concat (map (\<lambda>color. [toStr (Str (slice1 color)) @ ''_taskdef-v2'',
        ''DemoColorTellerService-'' @ toStr (Str (slice1 color)) @ ''-v2'']) cs))"
    by simp
  from forEach_create_returns [OF this] 1 show ?thesis
    by (simp add: createColorTeller_def)
qed

lemma forEach_createVirtualNode_returns:
  "mesh st = Some m \<Longrightarrow>
   distinct (map fst (children st) @ map (\<lambda>color. ''Demo-'' @ color @ ''-vn'') cs) \<Longrightarrow>
   \<exists>st'. forEach createVirtualNode cs st = Inr st'"
proof (induction cs arbitrary: st)
  case Nil
  then show ?case by simp
next
  case (Cons c cs)
  let ?st1 = "addDependsOn (''Demo-'' @ c @ ''-vn'') (fst m)
      (st\<lparr>children := children st @
        [(''Demo-'' @ c @ ''-vn'',
          CfnVirtualNode (virtualNodeProps (meshName (snd m)) (c @ ''-vn'') st))]\<rparr>)"
  from Cons.prems have 1: "createVirtualNode c st = Inr ?st1"
    by (simp add: createVirtualNode_def addChild_def Let_def)
  have m1: "mesh ?st1 = Some m" using Cons.prems(1) by (simp add: addDependsOn_def)
  from Cons.prems(2) have "distinct (map fst (children ?st1) @
      map (\<lambda>color. ''Demo-'' @ color @ ''-vn'') cs)"
    by (simp add: addDependsOn_def)
  from Cons.IH [OF m1 this] 1 show ?case by simp
qed

lemma createMesh_returns:
  assumes "distinct (map fst (children st) @
     ''DemoMesh'' # map (\<lambda>color. ''Demo-'' @ color @ ''-vn'') (colors st) @
     [''DemoColorTellerVirtualRouter'', ''DemoColorTellerRoute'',
      ''ColorTellerVirtualService''])"
  shows "\<exists>st'. createMesh st = Inr st'"
proof -
  let ?m = "(''DemoMesh'', \<lparr>meshName = ''demomesh''\<rparr>)"
  let ?st1 = "st\<lparr>children := children st @ [(''DemoMesh'', CfnMesh \<lparr>meshName = ''demomesh''\<rparr>)],
                 mesh := Some ?m\<rparr>"
  have m1: "mesh ?st1 = Some ?m" by simp
  from assms have "distinct (map fst (children ?st1) @
      map (\<lambda>color. ''Demo-'' @ color @ ''-vn'') (colors st))"
    by simp
  from forEach_createVirtualNode_returns [OF m1 this]
  obtain st2 where 2: "forEach createVirtualNode (colors st) ?st1 = Inr st2" by blast
  note s2 = forEach_createVirtualNode_Inr [OF m1 2]
  from assms show ?thesis
    by (simp add: createMesh_def Let_def addChild_def createVirtualNodes_def 2
        createVirtualRouter_def createRoute_def createVirtualService_def s2 addDependsOn_def)
qed

lemma constructor_returns:
  assumes "distinct
      ([''LogGroup'', ''demoVPC'', ''DemoExternalSG'', ''DemoInternalSG'', ''DemoCluster'',
        ''DemoTaskRole'', ''demoTaskExecutionRole'', ''GatewayTaskDef-v2'',
        ''GatewayService-v2'', ''DemoALB'', ''alburl''] @
       [toStr (index0 cs) @ ''_taskdef-v2'',
        ''DemoColorTellerService-'' @ toStr (index0 cs) @ ''-v2''] @
       concat (map (\<lambda>color. [slice1 color @ ''_taskdef-v2'',
                              ''DemoColorTellerService-'' @ slice1 color @ ''-v2'']) cs) @
       ''DemoMesh'' # map (\<lambda>color. ''Demo-'' @ color @ ''-vn'') cs @
       [''DemoColorTellerVirtualRouter'', ''DemoColorTellerRoute'',
        ''ColorTellerVirtualService''])"
  shows "\<exists>st. constructor cs ns = Inr st"
proof -
  define st4 where "st4 = projr (andThen (createLogGroup (fieldInit cs ns))
            (\<lambda>st1. andThen (createVpc st1)
            (\<lambda>st2. andThen (createCluster st2) createGateway)))"
  note i = infrastructure(1) [of cs ns, folded st4_def]
  note inf = infrastructure(2-9) [of cs ns, folded st4_def]
  note io = infrastructure(10-15) [of cs ns, folded st4_def]
  from assms have "distinct (map fst (children st4) @
     [toStr (index0 cs) @ ''_taskdef-v2'',
      ''DemoColorTellerService-'' @ toStr (index0 cs) @ ''-v2''] @
     concat (map (\<lambda>color. [slice1 color @ ''_taskdef-v2'',
                            ''DemoColorTellerService-'' @ slice1 color @ ''-v2'']) cs))"
    unfolding io(1) by (simp only: distinct_append append_assoc [symmetric]) 
  from createColorTeller_returns [OF this]
  obtain st5 where 5: "createColorTeller cs st4 = Inr st5" by blast
  note c = createColorTeller_Inr [OF 5]
  have "map fst (children st5) = [''LogGroup'', ''demoVPC'', ''DemoExternalSG'', ''DemoInternalSG'', ''DemoCluster'',
        ''DemoTaskRole'', ''demoTaskExecutionRole'', ''GatewayTaskDef-v2'',
        ''GatewayService-v2'', ''DemoALB'', ''alburl''] @
       [toStr (index0 cs) @ ''_taskdef-v2'',
        ''DemoColorTellerService-'' @ toStr (index0 cs) @ ''-v2''] @
       concat (map (\<lambda>color. [slice1 color @ ''_taskdef-v2'',
                              ''DemoColorTellerService-'' @ slice1 color @ ''-v2'']) cs)"
    by (simp add: c(10) io map_concat comp_def)
  with assms have "distinct (map fst (children st5) @
     ''DemoMesh'' # map (\<lambda>color. ''Demo-'' @ color @ ''-vn'') (colors st5) @
     [''DemoColorTellerVirtualRouter'', ''DemoColorTellerRoute'',
      ''ColorTellerVirtualService''])"
    by (simp only: c(7) inf append_assoc)
  from createMesh_returns [OF this] obtain st where "createMesh st5 = Inr st" by blast
  with i 5 inf(1) show ?thesis
    by (simp add: constructor_split)
qed

lemma addChild_distinct:
  "addChild i c st = Inr st' \<Longrightarrow> distinct (map fst (children st)) \<Longrightarrow>
   distinct (map fst (children st'))"
  by (auto simp add: addChild_eq_Inr)

lemma forEach_distinct:
  assumes "\<And>x s s'. f x s = Inr s' \<Longrightarrow> distinct (map fst (children s)) \<Longrightarrow>
             distinct (map fst (children s'))"
  shows "forEach f xs s = Inr s' \<Longrightarrow> distinct (map fst (children s)) \<Longrightarrow>
         distinct (map fst (children s'))"
proof (induction xs arbitrary: s)
  case Nil
  then show ?case by simp
next
  case (Cons x xs)
  from Cons.prems(1) obtain s1 where 1: "f x s = Inr s1" and 2: "forEach f xs s1 = Inr s'"
    by (auto split: sum.splits)
  from assms [OF 1 Cons.prems(2)] Cons.IH [OF 2] show ?case by simp
qed

lemma create_distinct:
  "create c n st = Inr st' \<Longrightarrow> distinct (map fst (children st)) \<Longrightarrow>
   distinct (map fst (children st'))"
  by (auto simp add: create_def andThen_eq_Inr addChild_eq_Inr Let_def)

lemma createColorTeller_distinct:
  assumes "createColorTeller cs st = Inr st'" and "distinct (map fst (children st))"
  shows "distinct (map fst (children st'))"
proof -
  from assms(1) obtain st1 where 1: "create (index0 cs) ''colorteller'' st = Inr st1"
    and 2: "forEach (\<lambda>color. create (Str (slice1 color)) (''colorteller-'' @ color)) cs st1
              = Inr st'"
    by (auto simp add: createColorTeller_def andThen_eq_Inr)
  from create_distinct [OF 1 assms(2)] have d1: "distinct (map fst (children st1))" .
  show ?thesis
    by (rule forEach_distinct [OF _ 2 d1]) (rule create_distinct)
qed

lemma createVirtualNode_distinct:
  "createVirtualNode c st = Inr st' \<Longrightarrow> distinct (map fst (children st)) \<Longrightarrow>
   distinct (map fst (children st'))"
  by (auto simp add: createVirtualNode_def andThen_eq_Inr addChild_eq_Inr Let_def
      addDependsOn_def split: option.splits)

lemma createMesh_distinct:
  assumes "createMesh st = Inr st'" and "distinct (map fst (children st))"
  shows "distinct (map fst (children st'))"
proof -
  from assms(1) obtain st0 st2 r st3 st4 where
    0: "addChild ''DemoMesh'' (CfnMesh \<lparr>meshName = ''demomesh''\<rparr>) st = Inr st0"
    and 1: "forEach createVirtualNode (colors st)
              (st0\<lparr>mesh := Some (''DemoMesh'', \<lparr>meshName = ''demomesh''\<rparr>)\<rparr>) = Inr st2"
    and 2: "createVirtualRouter st2 = Inr (r, st3)"
    and 3: "createRoute r st3 = Inr st4"
    and 4: "createVirtualService r st4 = Inr st'"
    by (auto simp add: createMesh_def Let_def andThen_eq_Inr createVirtualNodes_def
        addChild_eq_Inr)
  from addChild_distinct [OF 0 assms(2)]
  have "distinct (map fst (children
      (st0\<lparr>mesh := Some (''DemoMesh'', \<lparr>meshName = ''demomesh''\<rparr>)\<rparr>)))"
    by simp
  from forEach_distinct [of createVirtualNode, OF createVirtualNode_distinct 1 this]
  have d2: "distinct (map fst (children st2))" .
  from 2 d2 have d3: "distinct (map fst (children st3))"
    by (auto simp add: createVirtualRouter_def andThen_eq_Inr addChild_eq_Inr Let_def
        addDependsOn_def split: option.splits)
  from 3 d3 have d4: "distinct (map fst (children st4))"
    by (auto simp add: createRoute_def andThen_eq_Inr addChild_eq_Inr
        addDependsOn_def split: option.splits)
  from 4 d4 show ?thesis
    by (auto simp add: createVirtualService_def andThen_eq_Inr addChild_eq_Inr
        addDependsOn_def split: option.splits)
qed

lemma constructor_distinct:
  assumes "constructor cs ns = Inr st"
  shows "distinct (map fst (children st))"
proof -
  define st4 where "st4 = projr (andThen (createLogGroup (fieldInit cs ns))
            (\<lambda>st1. andThen (createVpc st1)
            (\<lambda>st2. andThen (createCluster st2) createGateway)))"
  note i = infrastructure(1) [of cs ns, folded st4_def]
  note inf = infrastructure(2-9) [of cs ns, folded st4_def]
  note io = infrastructure(10-15) [of cs ns, folded st4_def]
  from assms i inf(1) obtain st5 where 5: "createColorTeller cs st4 = Inr st5"
    and 6: "createMesh st5 = Inr st"
    by (auto simp add: constructor_split andThen_eq_Inr)
  have "distinct (map fst (children st4))" by (simp add: io)
  from createMesh_distinct [OF 6 createColorTeller_distinct [OF 5 this]] show ?thesis .
qed

lemma constructor_returns_iff:
  "(\<exists>st. constructor cs ns = Inr st) =
   distinct
      ([''LogGroup'', ''demoVPC'', ''DemoExternalSG'', ''DemoInternalSG'', ''DemoCluster'',
        ''DemoTaskRole'', ''demoTaskExecutionRole'', ''GatewayTaskDef-v2'',
        ''GatewayService-v2'', ''DemoALB'', ''alburl''] @
       [toStr (index0 cs) @ ''_taskdef-v2'',
        ''DemoColorTellerService-'' @ toStr (index0 cs) @ ''-v2''] @
       concat (map (\<lambda>color. [slice1 color @ ''_taskdef-v2'',
                              ''DemoColorTellerService-'' @ slice1 color @ ''-v2'']) cs) @
       ''DemoMesh'' # map (\<lambda>color. ''Demo-'' @ color @ ''-vn'') cs @
       [''DemoColorTellerVirtualRouter'', ''DemoColorTellerRoute'',
        ''ColorTellerVirtualService''])"
proof
  assume "\<exists>st. constructor cs ns = Inr st"
  then obtain st where st: "constructor cs ns = Inr st" by blast
  from constructor_distinct [OF st] show "distinct
      ([''LogGroup'', ''demoVPC'', ''DemoExternalSG'', ''DemoInternalSG'', ''DemoCluster'',
        ''DemoTaskRole'', ''demoTaskExecutionRole'', ''GatewayTaskDef-v2'',
        ''GatewayService-v2'', ''DemoALB'', ''alburl''] @
       [toStr (index0 cs) @ ''_taskdef-v2'',
        ''DemoColorTellerService-'' @ toStr (index0 cs) @ ''-v2''] @
       concat (map (\<lambda>color. [slice1 color @ ''_taskdef-v2'',
                              ''DemoColorTellerService-'' @ slice1 color @ ''-v2'']) cs) @
       ''DemoMesh'' # map (\<lambda>color. ''Demo-'' @ color @ ''-vn'') cs @
       [''DemoColorTellerVirtualRouter'', ''DemoColorTellerRoute'',
        ''ColorTellerVirtualService''])"
    by (simp only: constructor_Inr(8) [OF st])
next
  assume "distinct
      ([''LogGroup'', ''demoVPC'', ''DemoExternalSG'', ''DemoInternalSG'', ''DemoCluster'',
        ''DemoTaskRole'', ''demoTaskExecutionRole'', ''GatewayTaskDef-v2'',
        ''GatewayService-v2'', ''DemoALB'', ''alburl''] @
       [toStr (index0 cs) @ ''_taskdef-v2'',
        ''DemoColorTellerService-'' @ toStr (index0 cs) @ ''-v2''] @
       concat (map (\<lambda>color. [slice1 color @ ''_taskdef-v2'',
                              ''DemoColorTellerService-'' @ slice1 color @ ''-v2'']) cs) @
       ''DemoMesh'' # map (\<lambda>color. ''Demo-'' @ color @ ''-vn'') cs @
       [''DemoColorTellerVirtualRouter'', ''DemoColorTellerRoute'',
        ''ColorTellerVirtualService''])"
  then show "\<exists>st. constructor cs ns = Inr st" by (rule constructor_returns)
qed

lemma constructor_returns_at:
  "constructor [''blue'', ''green''] ns = Inr (projr (constructor [''blue'', ''green''] ns))"
  "constructor [''blue'', ''bluegreen''] ns = Inr (projr (constructor [''blue'', ''bluegreen''] ns))"
  "constructor [''red'', ''green''] ns = Inr (projr (constructor [''red'', ''green''] ns))"
  "constructor [''green'', ''blue''] ns = Inr (projr (constructor [''green'', ''blue''] ns))"
  "constructor [] ns = Inr (projr (constructor [] ns))"
  "constructor [''not ok!''] ns = Inr (projr (constructor [''not ok!''] ns))"
proof -
  have r: "\<And>cs. (\<exists>st. constructor cs ns = Inr st) \<Longrightarrow>
      constructor cs ns = Inr (projr (constructor cs ns))"
    by auto
  show "constructor [''blue'', ''green''] ns = Inr (projr (constructor [''blue'', ''green''] ns))"
    by (rule r) (simp add: constructor_returns_iff slice1_def)
  show "constructor [''blue'', ''bluegreen''] ns =
      Inr (projr (constructor [''blue'', ''bluegreen''] ns))"
    by (rule r) (simp add: constructor_returns_iff slice1_def)
  show "constructor [''red'', ''green''] ns = Inr (projr (constructor [''red'', ''green''] ns))"
    by (rule r) (simp add: constructor_returns_iff slice1_def)
  show "constructor [''green'', ''blue''] ns = Inr (projr (constructor [''green'', ''blue''] ns))"
    by (rule r) (simp add: constructor_returns_iff slice1_def)
  show "constructor [] ns = Inr (projr (constructor [] ns))"
    by (rule r) (simp add: constructor_returns_iff slice1_def)
  show "constructor [''not ok!''] ns = Inr (projr (constructor [''not ok!''] ns))"
    by (rule r) (simp add: constructor_returns_iff slice1_def)
qed


lemma create_step:
  assumes "distinct (map fst (children st) @
     [toStr c @ ''_taskdef-v2'', ''DemoColorTellerService-'' @ toStr c @ ''-v2''])"
  shows "\<exists>st'. create c n st = Inr st' \<and>
     map fst (children st') = map fst (children st) @
       [toStr c @ ''_taskdef-v2'', ''DemoColorTellerService-'' @ toStr c @ ''-v2'']"
proof -
  from create_returns [OF assms] obtain st' where 1: "create c n st = Inr st'" by blast
  from create_Inr(10) [OF 1] have "map fst (children st') = map fst (children st) @
       [toStr c @ ''_taskdef-v2'', ''DemoColorTellerService-'' @ toStr c @ ''-v2'']"
    by simp
  with 1 show ?thesis by blast
qed

lemma create_clash:
  "toStr c @ ''_taskdef-v2'' \<in> set (map fst (children st)) \<Longrightarrow>
   create c n st = Inl (DuplicateIdentifier (toStr c @ ''_taskdef-v2''))"
  by (simp add: create_def addChild_def)

lemma constructor_createColorTeller_Inl:
  assumes "createColorTeller cs
      (projr (andThen (createLogGroup (fieldInit cs ns))
            (\<lambda>st1. andThen (createVpc st1)
            (\<lambda>st2. andThen (createCluster st2) createGateway)))) = Inl e"
  shows "constructor cs ns = Inl e"
proof -
  define st4 where "st4 = projr (andThen (createLogGroup (fieldInit cs ns))
            (\<lambda>st1. andThen (createVpc st1)
            (\<lambda>st2. andThen (createCluster st2) createGateway)))"
  note i = infrastructure(1) [of cs ns, folded st4_def]
  note inf = infrastructure(2-9) [of cs ns, folded st4_def]
  from assms [folded st4_def] show ?thesis
    by (simp add: constructor_split i inf)
qed

lemma constructor_fails_at:
  "constructor [''''] ns = Inl (DuplicateIdentifier ''_taskdef-v2'')"
  "constructor [''a'', ''b''] ns = Inl (DuplicateIdentifier ''_taskdef-v2'')"
  "constructor [''blue'', ''xblue''] ns = Inl (DuplicateIdentifier ''blue_taskdef-v2'')"
proof -
  define st4 where "st4 = (\<lambda>cs. projr (andThen (createLogGroup (fieldInit cs ns))
            (\<lambda>st1. andThen (createVpc st1)
            (\<lambda>st2. andThen (createCluster st2) createGateway))))"
  have io: "\<And>cs. map fst (children (st4 cs)) =
       [''LogGroup'', ''demoVPC'', ''DemoExternalSG'', ''DemoInternalSG'', ''DemoCluster'',
        ''DemoTaskRole'', ''demoTaskExecutionRole'', ''GatewayTaskDef-v2'',
        ''GatewayService-v2'', ''DemoALB'', ''alburl'']"
    by (simp add: st4_def infrastructure(10))
  have r: "\<And>cs e. createColorTeller cs (st4 cs) = Inl e \<Longrightarrow> constructor cs ns = Inl e"
    unfolding st4_def by (rule constructor_createColorTeller_Inl)
  show "constructor [''''] ns = Inl (DuplicateIdentifier ''_taskdef-v2'')"
  proof (rule r)
    obtain st1 where 1: "create (Str '''') ''colorteller'' (st4 ['''']) = Inr st1"
      and c1: "map fst (children st1) = map fst (children (st4 [''''])) @
         [toStr (Str '''') @ ''_taskdef-v2'',
          ''DemoColorTellerService-'' @ toStr (Str '''') @ ''-v2'']"
      using create_step [of "st4 ['''']" "Str ''''" "''colorteller''"] by (auto simp add: io)
    have "create (Str '''') ''colorteller-'' st1 =
        Inl (DuplicateIdentifier (toStr (Str '''') @ ''_taskdef-v2''))"
      by (rule create_clash) (simp add: c1)
    with 1 show "createColorTeller [''''] (st4 ['''']) = Inl (DuplicateIdentifier ''_taskdef-v2'')"
      by (simp add: createColorTeller_def slice1_def)
  qed
  show "constructor [''a'', ''b''] ns = Inl (DuplicateIdentifier ''_taskdef-v2'')"
  proof (rule r)
    obtain st1 where 1: "create (Str ''a'') ''colorteller'' (st4 [''a'', ''b'']) = Inr st1"
      and c1: "map fst (children st1) = map fst (children (st4 [''a'', ''b''])) @
         [toStr (Str ''a'') @ ''_taskdef-v2'',
          ''DemoColorTellerService-'' @ toStr (Str ''a'') @ ''-v2'']"
      using create_step [of "st4 [''a'', ''b'']" "Str ''a''" "''colorteller''"]
      by (auto simp add: io)
    obtain st2 where 2: "create (Str '''') ''colorteller-a'' st1 = Inr st2"
      and c2: "map fst (children st2) = map fst (children st1) @
         [toStr (Str '''') @ ''_taskdef-v2'',
          ''DemoColorTellerService-'' @ toStr (Str '''') @ ''-v2'']"
      using create_step [of st1 "Str ''''" "''colorteller-a''"] by (auto simp add: c1 io)
    have "create (Str '''') ''colorteller-b'' st2 =
        Inl (DuplicateIdentifier (toStr (Str '''') @ ''_taskdef-v2''))"
      by (rule create_clash) (simp add: c2)
    with 1 2 show "createColorTeller [''a'', ''b''] (st4 [''a'', ''b'']) =
        Inl (DuplicateIdentifier ''_taskdef-v2'')"
      by (simp add: createColorTeller_def slice1_def)
  qed
  show "constructor [''blue'', ''xblue''] ns = Inl (DuplicateIdentifier ''blue_taskdef-v2'')"
  proof (rule r)
    obtain st1 where 1: "create (Str ''blue'') ''colorteller'' (st4 [''blue'', ''xblue'']) = Inr st1"
      and c1: "map fst (children st1) = map fst (children (st4 [''blue'', ''xblue''])) @
         [toStr (Str ''blue'') @ ''_taskdef-v2'',
          ''DemoColorTellerService-'' @ toStr (Str ''blue'') @ ''-v2'']"
      using create_step [of "st4 [''blue'', ''xblue'']" "Str ''blue''" "''colorteller''"]
      by (auto simp add: io)
    obtain st2 where 2: "create (Str ''lue'') ''colorteller-blue'' st1 = Inr st2"
      and c2: "map fst (children st2) = map fst (children st1) @
         [toStr (Str ''lue'') @ ''_taskdef-v2'',
          ''DemoColorTellerService-'' @ toStr (Str ''lue'') @ ''-v2'']"
      using create_step [of st1 "Str ''lue''" "''colorteller-blue''"] by (auto simp add: c1 io)
    have "create (Str ''blue'') ''colorteller-xblue'' st2 =
        Inl (DuplicateIdentifier (toStr (Str ''blue'') @ ''_taskdef-v2''))"
      by (rule create_clash) (simp add: c2 c1)
    with 1 2 show "createColorTeller [''blue'', ''xblue''] (st4 [''blue'', ''xblue'']) =
        Inl (DuplicateIdentifier ''blue_taskdef-v2'')"
      by (simp add: createColorTeller_def slice1_def)
  qed
qed

section \<open>The claims\<close>

text \<open>
  Dependencies are recorded as \<open>addDependsOn\<close> receives them: the pair \<open>(a, b)\<close> says
  that \<open>a\<close> depends on \<open>b\<close>, which the specification draws as the edge from \<open>b\<close>
  to \<open>a\<close>.
\<close>

lemma taskdef_id_not_gateway: "x @ ''_taskdef-v2'' \<noteq> ''GatewayTaskDef-v2''"
proof
  assume "x @ ''_taskdef-v2'' = ''GatewayTaskDef-v2''"
  then have "rev (x @ ''_taskdef-v2'') = rev ''GatewayTaskDef-v2''" by simp
  then show False by simp
qed

lemma node_name_inj: "(c @ ''-vn'' = ''blue-vn'') = (c = ''blue'')"
proof -
  have "(c @ ''-vn'' = ''blue'' @ ''-vn'') = (c = ''blue'')" by (rule append_same_eq)
  then show ?thesis by simp
qed

text \<open>
  The hostname rule as the source has it: a virtual node gets the hostname \<open>colorteller\<close>
  when its name starts with the first variant, its own name otherwise. The node of the first
  variant always gets \<open>colorteller\<close>; a later node gets its own name unless its name starts
  with the first variant.
\<close>

lemma hostnames:
  "constructor cs ns = Inr st \<Longrightarrow>
   map (\<lambda>n. (virtualNodeName n, hostname n)) (virtualNodes st) =
     map (\<lambda>color. (color @ ''-vn'',
                     if startsWith (color @ ''-vn'') (toStr (index0 cs))
                     then ''colorteller'' else color @ ''-vn'')) cs"
  by (simp add: constructor_Inr virtualNodeProps_def comp_def)

lemma hostname_of_first_variant:
  "constructor (c # cs) ns = Inr st \<Longrightarrow>
   map hostname (take 1 (virtualNodes st)) = [''colorteller'']"
  by (simp add: constructor_Inr virtualNodeProps_def startsWith_def)

lemma hostname_of_later_variant:
  "constructor (c # cs) ns = Inr st \<Longrightarrow> i < length cs \<Longrightarrow>
   \<not> startsWith (cs ! i @ ''-vn'') c \<Longrightarrow>
   hostname (virtualNodes st ! Suc i) = cs ! i @ ''-vn''"
  by (simp add: constructor_Inr virtualNodeProps_def)

text \<open>
  C1. The virtual node of the variant at index 0 has the hostname \<open>colorteller\<close>, and the
  virtual node of every later variant has its own node name as hostname. The source
  decides the special case by \<open>name.startsWith(this.colors[0])\<close>, so a later variant
  whose name begins with the first variant is taken for the default one too: for the
  variants \<open>["blue", "bluegreen"]\<close> the node \<open>bluegreen-vn\<close> gets the hostname
  \<open>colorteller\<close>, not \<open>bluegreen-vn\<close>.
\<close>

theorem C1_prefix_collision:
  "\<not> isl (constructor [''blue'', ''bluegreen''] ''mesh.local'') \<and>
   map (\<lambda>n. (virtualNodeName n, hostname n))
     (virtualNodes (projr (constructor [''blue'', ''bluegreen''] ''mesh.local''))) =
     [(''blue-vn'', ''colorteller''), (''bluegreen-vn'', ''colorteller'')]"
proof -
  note ok = constructor_returns_at(2) [of "''mesh.local''"]
  from ok have "\<not> isl (constructor [''blue'', ''bluegreen''] ''mesh.local'')"
    by (metis sum.disc(2))
  then show ?thesis
    by (simp add: constructor_Inr [OF ok] virtualNodeProps_def startsWith_def)
qed

text \<open>
  C2, as stated: for every variant list, every node name that the route forwards to is
  the name of a virtual node of the stack. The route names \<open>blue-vn\<close> whatever the
  variants are; for \<open>["red", "green"]\<close> no such node exists.
\<close>

theorem C2_counterexample:
  "\<not> set (routeTargets (projr (constructor [''red'', ''green''] ''mesh.local'')))
       \<subseteq> set (nodeNames (projr (constructor [''red'', ''green''] ''mesh.local'')))"
  by (simp add: routeTargets_def nodeNames_def
      constructor_Inr [OF constructor_returns_at(3) [of "''mesh.local''"]]
      virtualNodeProps_def routeProps_def)

text \<open>
  C2, amended: in every stack that the constructor returns, the route forwards to the one
  fixed node name \<open>blue-vn\<close>, and that name is the name of a virtual node of the stack
  exactly when \<open>blue\<close> is one of the variants.
\<close>

theorem C2_route_target_exists_iff_blue:
  "constructor cs ns = Inr st \<Longrightarrow>
   routeTargets st = [''blue-vn''] \<and>
   (set (routeTargets st) \<subseteq> set (nodeNames st)) = (''blue'' \<in> set cs)"
  by (auto simp add: routeTargets_def nodeNames_def constructor_Inr
      virtualNodeProps_def routeProps_def node_name_inj image_iff)

theorem C2_witness:
  "constructor [''blue'', ''green''] ''mesh.local'' =
     Inr (projr (constructor [''blue'', ''green''] ''mesh.local'')) \<and>
   routeTargets (projr (constructor [''blue'', ''green''] ''mesh.local'')) = [''blue-vn''] \<and>
   set (routeTargets (projr (constructor [''blue'', ''green''] ''mesh.local'')))
     \<subseteq> set (nodeNames (projr (constructor [''blue'', ''green''] ''mesh.local'')))"
  using C2_route_target_exists_iff_blue [OF constructor_returns_at(1) [of "''mesh.local''"]]
    constructor_returns_at(1) [of "''mesh.local''"]
  by auto

text \<open>
  C3, as stated: the weighted targets of the route are exactly one entry, the virtual node
  of the first variant with weight 1. For \<open>["green", "blue"]\<close> the first variant's node is
  \<open>green-vn\<close> and the route still forwards to \<open>blue-vn\<close>.
\<close>

theorem C3_counterexample:
  "map weightedTargets (routes (projr (constructor [''green'', ''blue''] ''mesh.local''))) \<noteq>
     [map (\<lambda>n. \<lparr>virtualNode = virtualNodeName n, weight = 1\<rparr>)
        (take 1 (virtualNodes (projr (constructor [''green'', ''blue''] ''mesh.local''))))]"
  by (simp add: constructor_Inr [OF constructor_returns_at(4) [of "''mesh.local''"]]
      virtualNodeProps_def routeProps_def)

text \<open>
  C3, amended: in every stack that the constructor returns, the weighted targets of the
  route are exactly one entry, \<open>blue-vn\<close> with weight 1; that is the first variant's node
  exactly when the first variant is \<open>blue\<close>.
\<close>

theorem C3_route_targets_fixed:
  "constructor cs ns = Inr st \<Longrightarrow>
   map weightedTargets (routes st) = [[\<lparr>virtualNode = ''blue-vn'', weight = 1\<rparr>]] \<and>
   (map weightedTargets (routes st) =
      [map (\<lambda>n. \<lparr>virtualNode = virtualNodeName n, weight = 1\<rparr>) (take 1 (virtualNodes st))])
   = (index0 cs = Str ''blue'')"
  by (cases cs) (simp_all add: constructor_Inr routeProps_def virtualNodeProps_def
      node_name_inj eq_commute [of "''blue-vn''"])

theorem C3_witness:
  "constructor [''blue'', ''green''] ''mesh.local'' =
     Inr (projr (constructor [''blue'', ''green''] ''mesh.local'')) \<and>
   map weightedTargets (routes (projr (constructor [''blue'', ''green''] ''mesh.local''))) =
     [[\<lparr>virtualNode = ''blue-vn'', weight = 1\<rparr>]] \<and>
   map weightedTargets (routes (projr (constructor [''blue'', ''green''] ''mesh.local''))) =
     [map (\<lambda>n. \<lparr>virtualNode = virtualNodeName n, weight = 1\<rparr>)
        (take 1 (virtualNodes (projr (constructor [''blue'', ''green''] ''mesh.local''))))]"
  using C3_route_targets_fixed [OF constructor_returns_at(1) [of "''mesh.local''"]]
    constructor_returns_at(1) [of "''mesh.local''"]
  by auto

text \<open>
  C4. One backend service per variant: \<open>colorteller\<close> for the variant at index 0,
  \<open>colorteller-<variant>\<close> for every other variant, and no further service. The loop of
  \<open>createColorTeller\<close> runs over all the variants, the first included, and passes
  \<open>color.slice(1)\<close>, the colour without its first letter: for \<open>["blue", "green"]\<close> the
  stack holds three backend services, \<open>colorteller\<close> with colour \<open>blue\<close>,
  \<open>colorteller-blue\<close> with colour \<open>lue\<close> and \<open>colorteller-green\<close> with colour
  \<open>reen\<close> (next to the gateway, which has no colour).
\<close>

theorem C4_three_services_for_two_variants:
  "\<not> isl (constructor [''blue'', ''green''] ''mesh.local'') \<and>
   map (\<lambda>s. (serviceName s,
              envOf ''COLOR'' (projr (constructor [''blue'', ''green''] ''mesh.local'')) s))
     (services (projr (constructor [''blue'', ''green''] ''mesh.local''))) =
     [(''gateway'', []),
      (''colorteller'', [Str ''blue'']),
      (''colorteller-blue'', [Str ''lue'']),
      (''colorteller-green'', [Str ''reen''])]"
proof -
  note ok = constructor_returns_at(1) [of "''mesh.local''"]
  from ok have "\<not> isl (constructor [''blue'', ''green''] ''mesh.local'')"
    by (metis sum.disc(2))
  then show ?thesis
    by (simp add: constructor_Inr [OF ok] envOf_def gatewayService_def service_def
        gatewayTaskDef_def gatewayContainer_def taskDef_def container_def slice1_def)
qed

text \<open>
  C5, as stated: for the empty variant list the construction fails and creates nothing.
  The constructor returns a stack, and the stack has children.
\<close>

theorem C5_counterexample:
  "\<not> isl (constructor [] ''mesh.local'') \<and>
   children (projr (constructor [] ''mesh.local'')) \<noteq> []"
proof -
  note ok = constructor_returns_at(5) [of "''mesh.local''"]
  from ok have "\<not> isl (constructor [] ''mesh.local'')"
    by (metis sum.disc(2))
  moreover have "map fst (children (projr (constructor [] ''mesh.local''))) \<noteq> []"
    by (simp only: constructor_Inr(8) [OF ok]) simp
  ultimately show ?thesis by auto
qed

text \<open>
  C5, amended: for the empty variant list the constructor raises no error. It creates the
  log group, the network, the cluster, the roles, the gateway, one backend service named
  \<open>colorteller\<close> whose colour is \<open>undefined\<close>, the mesh, the router, the route and the
  virtual service, and no virtual node.
\<close>

theorem C5_empty_variant_list:
  "\<exists>st. constructor [] ns = Inr st \<and>
     map fst (children st) =
       [''LogGroup'', ''demoVPC'', ''DemoExternalSG'', ''DemoInternalSG'', ''DemoCluster'',
        ''DemoTaskRole'', ''demoTaskExecutionRole'', ''GatewayTaskDef-v2'',
        ''GatewayService-v2'', ''DemoALB'', ''alburl'', ''undefined_taskdef-v2'',
        ''DemoColorTellerService-undefined-v2'', ''DemoMesh'',
        ''DemoColorTellerVirtualRouter'', ''DemoColorTellerRoute'',
        ''ColorTellerVirtualService''] \<and>
     map (\<lambda>s. (serviceName s, envOf ''COLOR'' st s)) (services st) =
       [(''gateway'', []), (''colorteller'', [Undefined])] \<and>
     virtualNodes st = []"
proof -
  let ?st = "projr (constructor [] ns)"
  have A: "constructor [] ns = Inr ?st"
    by (rule constructor_returns_at(5))
  note f = constructor_Inr [OF A]
  have B: "map fst (children ?st) =
       [''LogGroup'', ''demoVPC'', ''DemoExternalSG'', ''DemoInternalSG'', ''DemoCluster'',
        ''DemoTaskRole'', ''demoTaskExecutionRole'', ''GatewayTaskDef-v2'',
        ''GatewayService-v2'', ''DemoALB'', ''alburl'', ''undefined_taskdef-v2'',
        ''DemoColorTellerService-undefined-v2'', ''DemoMesh'',
        ''DemoColorTellerVirtualRouter'', ''DemoColorTellerRoute'',
        ''ColorTellerVirtualService'']"
    by (simp add: f)
  have C: "map (\<lambda>s. (serviceName s, envOf ''COLOR'' ?st s)) (services ?st) =
       [(''gateway'', []), (''colorteller'', [Undefined])]"
    by (simp add: f envOf_def gatewayService_def service_def
        gatewayTaskDef_def gatewayContainer_def taskDef_def container_def)
  have D: "virtualNodes ?st = []"
    by (simp add: f)
  show ?thesis by (intro exI [of _ ?st] conjI A B C D)
qed

text \<open>
  C6, as stated: the dependency edges are exactly mesh to each virtual node, router to
  route, and route to virtual service. For \<open>["blue", "green"]\<close> the recorded edges are
  another set: the router depends on the mesh, and the virtual service depends on the router,
  not on the route.
\<close>

theorem C6_counterexample:
  "set (dependsOn (projr (constructor [''blue'', ''green''] ''mesh.local''))) \<noteq>
     {(''Demo-blue-vn'', ''DemoMesh''), (''Demo-green-vn'', ''DemoMesh''),
      (''DemoColorTellerRoute'', ''DemoColorTellerVirtualRouter''),
      (''ColorTellerVirtualService'', ''DemoColorTellerRoute'')}"
proof -
  have "(''DemoColorTellerVirtualRouter'', ''DemoMesh'')
      \<in> set (dependsOn (projr (constructor [''blue'', ''green''] ''mesh.local'')))"
    by (simp add: constructor_Inr [OF constructor_returns_at(1) [of "''mesh.local''"]])
  moreover have "(''DemoColorTellerVirtualRouter'', ''DemoMesh'') \<notin>
     {(''Demo-blue-vn'', ''DemoMesh''), (''Demo-green-vn'', ''DemoMesh''),
      (''DemoColorTellerRoute'', ''DemoColorTellerVirtualRouter''),
      (''ColorTellerVirtualService'', ''DemoColorTellerRoute'')}"
    by simp
  ultimately show ?thesis by metis
qed

text \<open>
  C6, amended: in every stack that the constructor returns, the dependency edges are exactly
  mesh to each virtual node, mesh to router, router to route, and router to virtual service;
  no edge leads from a virtual node to the router, and none from the route to the virtual
  service.
\<close>

theorem C6_dependency_edges:
  "constructor cs ns = Inr st \<Longrightarrow>
   dependsOn st =
     map (\<lambda>color. (''Demo-'' @ color @ ''-vn'', ''DemoMesh'')) cs @
     [(''DemoColorTellerVirtualRouter'', ''DemoMesh''),
      (''DemoColorTellerRoute'', ''DemoColorTellerVirtualRouter''),
      (''ColorTellerVirtualService'', ''DemoColorTellerVirtualRouter'')]"
  by (rule constructor_Inr)

theorem C6_witness:
  "constructor [''blue'', ''green''] ''mesh.local'' =
     Inr (projr (constructor [''blue'', ''green''] ''mesh.local'')) \<and>
   dependsOn (projr (constructor [''blue'', ''green''] ''mesh.local'')) =
     [(''Demo-blue-vn'', ''DemoMesh''), (''Demo-green-vn'', ''DemoMesh''),
      (''DemoColorTellerVirtualRouter'', ''DemoMesh''),
      (''DemoColorTellerRoute'', ''DemoColorTellerVirtualRouter''),
      (''ColorTellerVirtualService'', ''DemoColorTellerVirtualRouter'')]"
  using C6_dependency_edges [OF constructor_returns_at(1) [of "''mesh.local''"]]
    constructor_returns_at(1) [of "''mesh.local''"]
  by simp

text \<open>
  C7, as stated: the service of the default variant omits the short DNS time-to-live. For
  \<open>["blue", "green"]\<close> the service named \<open>colorteller\<close> carries the time-to-live of 10
  seconds.
\<close>

theorem C7_counterexample:
  "map (\<lambda>s. dnsTtl (cloudMapOptions s))
     (filter (\<lambda>s. serviceName s = ''colorteller'')
        (services (projr (constructor [''blue'', ''green''] ''mesh.local'')))) = [Some 10]"
  by (simp add: constructor_Inr [OF constructor_returns_at(1) [of "''mesh.local''"]]
      gatewayService_def service_def DEF_TTL_def)

text \<open>
  C7, amended: in every stack that the constructor returns, every backend service carries
  the short DNS time-to-live of 10 seconds, the service \<open>colorteller\<close> of the default
  variant included; only the gateway service omits it.
\<close>

theorem C7_every_backend_service_has_short_ttl:
  "constructor cs ns = Inr st \<Longrightarrow>
   map (\<lambda>s. dnsTtl (cloudMapOptions s)) (services st) =
     map (\<lambda>s. if serviceName s = ''gateway'' then None else Some 10) (services st) \<and>
   map (\<lambda>s. dnsTtl (cloudMapOptions s))
     (filter (\<lambda>s. serviceName s = ''colorteller'') (services st)) = [Some 10]"
  by (simp add: constructor_Inr gatewayService_def service_def DEF_TTL_def filter_map comp_def)

theorem C7_witness:
  "constructor [''blue'', ''green''] ''mesh.local'' =
     Inr (projr (constructor [''blue'', ''green''] ''mesh.local'')) \<and>
   map (\<lambda>s. dnsTtl (cloudMapOptions s))
     (services (projr (constructor [''blue'', ''green''] ''mesh.local''))) =
     [None, Some 10, Some 10, Some 10]"
proof -
  note ok = constructor_returns_at(1) [of "''mesh.local''"]
  have "map (\<lambda>s. if serviceName s = ''gateway'' then None else Some (10::nat))
      (services (projr (constructor [''blue'', ''green''] ''mesh.local''))) =
      [None, Some 10, Some 10, Some 10]"
    by (simp add: constructor_Inr [OF ok] gatewayService_def service_def)
  with C7_every_backend_service_has_short_ttl [OF ok] ok show ?thesis by simp
qed




text \<open>
  C9. For the variants \<open>["blue", "green"]\<close> and the namespace \<open>mesh.local\<close> the stack
  holds the virtual nodes \<open>blue-vn\<close> with hostname \<open>colorteller\<close> and \<open>green-vn\<close> with
  hostname \<open>green-vn\<close>, one route whose weighted targets are exactly \<open>blue-vn\<close> with
  weight 1, and one virtual service named \<open>colorteller.mesh.local\<close>.
\<close>

theorem C9_blue_green:
  "\<exists>st. constructor [''blue'', ''green''] ''mesh.local'' = Inr st \<and>
     map (\<lambda>n. (virtualNodeName n, hostname n)) (virtualNodes st) =
       [(''blue-vn'', ''colorteller''), (''green-vn'', ''green-vn'')] \<and>
     map weightedTargets (routes st) = [[\<lparr>virtualNode = ''blue-vn'', weight = 1\<rparr>]] \<and>
     map virtualServiceName (virtualServices st) = [''colorteller.mesh.local'']"
proof -
  let ?st = "projr (constructor [''blue'', ''green''] ''mesh.local'')"
  have A: "constructor [''blue'', ''green''] ''mesh.local'' = Inr ?st"
    by (rule constructor_returns_at(1))
  note f = constructor_Inr [OF A]
  have B: "map (\<lambda>n. (virtualNodeName n, hostname n)) (virtualNodes ?st) =
       [(''blue-vn'', ''colorteller''), (''green-vn'', ''green-vn'')]"
    by (simp add: f virtualNodeProps_def startsWith_def)
  have C: "map weightedTargets (routes ?st) = [[\<lparr>virtualNode = ''blue-vn'', weight = 1\<rparr>]]"
    by (simp add: f routeProps_def)
  have D: "map virtualServiceName (virtualServices ?st) = [''colorteller.mesh.local'']"
    by (simp add: f svc_def)
  show ?thesis by (intro exI [of _ ?st] conjI A B C D)
qed

text \<open>
  C10. For every namespace, in every stack that the constructor returns (for the variants
  \<open>["blue", "green"]\<close> of the class it returns whatever the namespace is), the
  environment variable \<open>COLOR_TELLER_ENDPOINT\<close> of the gateway service is the name of
  the virtual service, a colon and the application port: \<open>colorteller.<namespace>:8080\<close>.
\<close>

theorem C10_gateway_endpoint:
  "constructor cs ns = Inr st \<Longrightarrow>
   serviceEnv ''gateway'' ''COLOR_TELLER_ENDPOINT'' st =
     map (\<lambda>v. Str (virtualServiceName v @ '':'' @ numToString APP_PORT)) (virtualServices st) \<and>
   serviceEnv ''gateway'' ''COLOR_TELLER_ENDPOINT'' st = [Str (''colorteller.'' @ ns @ '':8080'')]"
proof -
  assume c: "constructor cs ns = Inr st"
  note f = constructor_Inr [OF c]
  have B: "serviceEnv ''gateway'' ''COLOR_TELLER_ENDPOINT'' st =
      [Str (''colorteller.'' @ ns @ '':8080'')]"
    by (simp add: f serviceEnv_def envOf_def gatewayService_def service_def
      gatewayTaskDef_def gatewayContainer_def taskDef_def container_def
      taskdef_id_not_gateway [symmetric] numToString_APP_PORT comp_def)
  have C: "map (\<lambda>v. Str (virtualServiceName v @ '':'' @ numToString APP_PORT)) (virtualServices st)
     = [Str (''colorteller.'' @ ns @ '':8080'')]"
    by (simp add: f svc_def numToString_APP_PORT)
  show ?thesis by (intro conjI B [unfolded C [symmetric]] B)
qed

theorem C10_witness:
  "constructor [''blue'', ''green''] ''mesh.local'' =
     Inr (projr (constructor [''blue'', ''green''] ''mesh.local'')) \<and>
   serviceEnv ''gateway'' ''COLOR_TELLER_ENDPOINT''
     (projr (constructor [''blue'', ''green''] ''mesh.local'')) =
     [Str ''colorteller.mesh.local:8080''] \<and>
   map virtualServiceName
     (virtualServices (projr (constructor [''blue'', ''green''] ''mesh.local''))) =
     [''colorteller.mesh.local'']"
proof -
  note ok = constructor_returns_at(1) [of "''mesh.local''"]
  have "map virtualServiceName
     (virtualServices (projr (constructor [''blue'', ''green''] ''mesh.local''))) =
     [''colorteller.mesh.local'']"
    by (simp add: constructor_Inr [OF ok] svc_def)
  with C10_gateway_endpoint [OF ok] ok show ?thesis by auto
qed

end
